theory Spec2Isabelle
  imports Main "HOL-Library.Word" "HOL-Library.Monad_Syntax"
begin

section \<open>JavaScript values used by the relay\<close>

text \<open>
  The repository is one Node.js module per concern: \<open>telegram2discord/setup.js\<close>
  (the relay handlers and the file sender) and two revisions of
  \<open>telegram2discord/updategetter.js\<close> (the long-polling loop). The embedding keeps
  the names of the source. A property that may be \<open>undefined\<close> is an \<open>option\<close>;
  a thrown value or a rejected promise is a \<open>js_error\<close>; a promise that is awaited is
  the value \<open>Resolved\<close>, \<open>Rejected\<close> or \<open>Pending\<close> it settles to (a pending promise
  suspends the awaiting function for ever). Numbers are \<open>int\<close>: every number of the
  module is a message, chat or update id, far below \<open>2^53\<close>. Strings are \<open>string\<close>.
\<close>

datatype js_error = TypeError string | Failure string

datatype 'a promise = Resolved 'a | Rejected js_error | Pending

type_synonym byte = "8 word"
type_synonym buffer = "byte list"

text \<open>
  \<open>String.prototype.toLowerCase\<close>, on the ASCII letters. Every other character is
  left as it is, where JavaScript also lowers the letters outside ASCII; the two
  agree on every string of ASCII characters.
\<close>

definition lowerChar :: "char \<Rightarrow> char" where
  "lowerChar c =
     (let n = (of_char c :: nat) in if 65 \<le> n \<and> n \<le> 90 then char_of (n + 32) else c)"

definition toLowerCase :: "string \<Rightarrow> string" where
  "toLowerCase s = map lowerChar s"

text \<open>The conversion of a number to a string that \<open>"chatID: " + message.chat.id\<close> makes.\<close>

definition digitChar :: "nat \<Rightarrow> char" where
  "digitChar d = char_of (48 + d)"

fun digits :: "nat \<Rightarrow> string" where
  "digits n = (if n < 10 then [digitChar n] else digits (n div 10) @ [digitChar (n mod 10)])"

declare digits.simps [simp del]

definition numberToString :: "int \<Rightarrow> string" where
  "numberToString i = (if i < 0 then CHR ''-'' # digits (nat (- i)) else digits (nat i))"

text \<open>
  \<open>String.prototype.split(".")\<close>: the pieces between the separators, never an empty
  array. \<open>splitAcc\<close> carries the piece being read.
\<close>

fun splitAcc :: "char \<Rightarrow> string \<Rightarrow> string \<Rightarrow> string list" where
  "splitAcc sep acc [] = [acc]"
| "splitAcc sep acc (c # cs) =
     (if c = sep then acc # splitAcc sep [] cs else splitAcc sep (acc @ [c]) cs)"

definition split :: "char \<Rightarrow> string \<Rightarrow> string list" where
  "split sep s = splitAcc sep [] s"

text \<open>\<open>Array.prototype.pop\<close> returns the last element, \<open>undefined\<close> on an empty array.\<close>

definition pop :: "'a list \<Rightarrow> 'a option" where
  "pop xs = (case xs of [] \<Rightarrow> None | _ \<Rightarrow> Some (last xs))"

section \<open>Telegram and Discord objects\<close>

record chat =
  chat_id :: int

record tgFileRef =
  file_id :: string

record sticker =
  thumb :: "tgFileRef option"
  emoji :: "string option"

text \<open>
  A Telegram message. \<open>msg_text\<close> is the property \<open>text\<close> of the source (a reserved
  word here); the remaining payload properties keep their names.
\<close>

record message =
  message_id :: int
  chat :: chat
  msg_text :: "string option"
  caption :: "string option"
  photo :: "tgFileRef list option"
  document :: "tgFileRef option"
  voice :: "tgFileRef option"
  audio :: "tgFileRef option"
  video :: "tgFileRef option"
  sticker :: "sticker option"

record update =
  update_id :: int
  message :: "message option"
  channel_post :: "message option"
  edited_message :: "message option"

record user =
  username :: string

record tgFile =
  file_path :: "string option"

datatype stream_event = Data buffer | End

text \<open>
  The Telegram bot: the \<open>me\<close> object that \<open>getMe\<close> stores once it resolves, whether
  a call of \<open>sendMessage\<close> throws, and what \<open>getFile\<close> and \<open>helperGetFileStream\<close>
  answer. A file stream is the list of events it emits.
\<close>

datatype tg_call = SendMessage int string "string option" | GetFile string | GetFileStream tgFile

record tgBot =
  me :: "user option"
  sendMessageThrows :: "js_error option"
  getFile :: "string \<Rightarrow> tgFile promise"
  helperGetFileStream :: "tgFile \<Rightarrow> stream_event list promise"

text \<open>
  The Discord client: its \<open>ready\<close> promise, the channels \<open>channels.get\<close> finds, and
  what the calls on a channel or a message answer. Discord ids are strings.
  \<open>fetchMessage\<close> resolves to the message of the channel that has the id asked
  for, so the message object is the pair of the channel and the id.
\<close>

type_synonym channelId = string
type_synonym dcMessageId = string

datatype dc_call =
    Send channelId string
  | SendFile channelId string buffer string
  | FetchMessage channelId dcMessageId
  | Edit channelId dcMessageId string

record dcBot =
  ready :: "unit promise"
  channels :: "channelId \<Rightarrow> bool"
  send :: "channelId \<Rightarrow> string \<Rightarrow> dcMessageId promise"
  sendWithFile :: "channelId \<Rightarrow> string \<Rightarrow> buffer \<Rightarrow> string \<Rightarrow> dcMessageId promise"
  fetchMessage :: "channelId \<Rightarrow> dcMessageId \<Rightarrow> unit promise"
  edit :: "channelId \<Rightarrow> dcMessageId \<Rightarrow> string \<Rightarrow> unit promise"

record discordSide =
  channel :: channelId

record bridge =
  name :: string
  discord :: discordSide

text \<open>
  \<open>Application.bridgeMap\<close> is not part of the module: the table of the Telegram chats
  that have a bridge is a parameter, and \<open>has\<close> and \<open>getBridge\<close> read it.
\<close>

type_synonym bridgeMap = "int \<rightharpoonup> bridge"

record telegramSettings =
  sendEmojiWithStickers :: bool
  skipOldMessages :: bool

record settings =
  debug :: bool
  telegram :: telegramSettings

text \<open>What \<open>messageConverter\<close> returns; \<open>sender\<close> is its property \<open>from\<close>.\<close>

record messageObj =
  sender :: string
  composed :: string

type_synonym messageConverter = "message \<Rightarrow> messageObj"

section \<open>The observable state\<close>

datatype log_arg = ErrArg js_error | StrArg "string option" | MsgArg message

datatype log_entry =
    LoggerError string "log_arg list"
  | ConsoleError string "log_arg list"
  | LoggerLog string

datatype direction = TELEGRAM_TO_DISCORD | DISCORD_TO_TELEGRAM

text \<open>
  Every call made to either platform, every line logged, and the entries of the
  message map, keyed by direction and source message id.
\<close>

record world =
  tgCalls :: "tg_call list"
  dcCalls :: "dc_call list"
  logged :: "log_entry list"
  messageMap :: "direction \<times> int \<rightharpoonup> dcMessageId"

definition callTelegram :: "tg_call \<Rightarrow> world \<Rightarrow> world" where
  "callTelegram c w = w\<lparr>tgCalls := tgCalls w @ [c]\<rparr>"

definition callDiscord :: "dc_call \<Rightarrow> world \<Rightarrow> world" where
  "callDiscord c w = w\<lparr>dcCalls := dcCalls w @ [c]\<rparr>"

definition logLine :: "log_entry \<Rightarrow> world \<Rightarrow> world" where
  "logLine l w = w\<lparr>logged := logged w @ [l]\<rparr>"

section \<open>createMessageHandler\<close>

definition privateBotText :: string where
  "privateBotText =
     ''This is an instance of a [TediCross](https://github.com/Suppen/TediCross) bot, ''
     @ ''bridging a chat in Telegram with one in Discord. ''
     @ ''If you wish to use TediCross yourself, please download and create an instance. ''
     @ ''Join our [Telegram group](https://t.me/TediCrossSupport) or [Discord server](https://discord.gg/MfzGMzy) for help''"

text \<open>The condition of the first \<open>if\<close>: the text, the bot's \<open>me\<close>, the comparison.\<close>

definition isChatInfo :: "tgBot \<Rightarrow> message \<Rightarrow> bool" where
  "isChatInfo tg m =
     (case msg_text m of
        None \<Rightarrow> False
      | Some t \<Rightarrow>
          (case me tg of
             None \<Rightarrow> False
           | Some b \<Rightarrow> toLowerCase t = toLowerCase (''@'' @ username b @ '' chatinfo'')))"

text \<open>
  The wrapped handler \<open>func\<close> is a state transformer. Neither \<open>sendMessage\<close> nor
  \<open>func\<close> is awaited. A call of \<open>sendMessage\<close> that throws is caught only in the
  second branch.
\<close>

definition createMessageHandler ::
  "tgBot \<Rightarrow> bridgeMap \<Rightarrow> (message \<Rightarrow> bridge \<Rightarrow> world \<Rightarrow> world) \<Rightarrow> message \<Rightarrow> world \<Rightarrow> world" where
  "createMessageHandler tg bridges func m w =
     (if isChatInfo tg m then
        callTelegram
          (SendMessage (chat_id (chat m)) (''chatID: '' @ numberToString (chat_id (chat m))) None) w
      else
        (case bridges (chat_id (chat m)) of
           None \<Rightarrow>
             (let w1 = callTelegram
                         (SendMessage (chat_id (chat m)) privateBotText (Some ''markdown'')) w
              in case sendMessageThrows tg of
                   None \<Rightarrow> w1
                 | Some err \<Rightarrow>
                     logLine (ConsoleError
                                ''Could not tell user to get their own TediCross instance:''
                                [ErrArg err, MsgArg m]) w1)
         | Some b \<Rightarrow> func m b w))"

section \<open>MessageMap\<close>

text \<open>
  Modelled from the spec: the class \<open>MessageMap\<close> (\<open>../MessageMap\<close>) is required by
  the module and is not part of it. The spec gives it two operations:
  \<open>insert(direction, sourceId, destId)\<close> records a mapping, and
  \<open>lookup(direction, sourceId)\<close> is a pure read answering the destination id or
  \<open>NotFound\<close>. An insert over an existing entry overwrites it (the spec leaves the
  choice open).
\<close>

definition insertMapping ::
  "direction \<Rightarrow> int \<Rightarrow> dcMessageId \<Rightarrow> world \<Rightarrow> world" where
  "insertMapping d fromId toId w = w\<lparr>messageMap := (messageMap w)((d, fromId) \<mapsto> toId)\<rparr>"

text \<open>
  Modelled from the spec: \<open>getCorresponding\<close> is the lookup of the spec. \<open>NotFound\<close>
  reaches the caller as a thrown error: the edit handler does not test the value
  returned, so an exception is the only form in which it can log a miss and drop
  the edit.
\<close>

definition notFound :: "int \<Rightarrow> js_error" where
  "notFound fromId = Failure (''No corresponding message ID for '' @ numberToString fromId)"

definition getCorresponding :: "direction \<Rightarrow> int \<Rightarrow> world \<Rightarrow> js_error + dcMessageId" where
  "getCorresponding d fromId w =
     (case messageMap w (d, fromId) of
        None \<Rightarrow> Inl (notFound fromId)
      | Some toId \<Rightarrow> Inr toId)"

section \<open>makeFileSender\<close>

text \<open>
  The argument object of the file sender, the relay job. \<open>relayed\<close> is its property
  \<open>message\<close> and \<open>jobCaption\<close> its property \<open>caption\<close>; \<open>jobCaption\<close> and
  \<open>resolveExtension\<close> have the defaults \<open>""\<close> and \<open>false\<close> when \<open>undefined\<close>.
\<close>

record relayJob =
  discordChannel :: channelId
  relayed :: message
  fileId :: string
  fileName :: string
  jobCaption :: "string option"
  resolveExtension :: "bool option"

definition captionText :: "relayJob \<Rightarrow> string" where
  "captionText job = (case jobCaption job of None \<Rightarrow> [] | Some c \<Rightarrow> c)"

definition textToSend :: "messageConverter \<Rightarrow> relayJob \<Rightarrow> string" where
  "textToSend conv job =
     ''**'' @ sender (conv (relayed job)) @ ''**:'' @ [CHR 0x0A] @ captionText job"

text \<open>
  \<open>"." + file.file_path.split(".").pop()\<close>; reading \<open>split\<close> of an \<open>undefined\<close>
  path throws.
\<close>

definition resolvedExtension :: "relayJob \<Rightarrow> tgFile \<Rightarrow> js_error + string" where
  "resolvedExtension job file =
     (if resolveExtension job = Some True then
        (case file_path file of
           None \<Rightarrow> Inl (TypeError ''Cannot read property split of undefined'')
         | Some path \<Rightarrow>
             (case pop (split CHR ''.'' path) of
                None \<Rightarrow> Inr (''.'' @ ''undefined'')
              | Some ext \<Rightarrow> Inr (''.'' @ ext)))
      else Inr [])"

text \<open>
  The two listeners on the stream: every \<open>data\<close> event pushes its chunk on
  \<open>buffers\<close>, and the first \<open>end\<close> event hands \<open>buffers\<close> to the upload. A stream
  that never ends leaves the promise of the file sender pending.
\<close>

fun consumeStream :: "stream_event list \<Rightarrow> buffer list \<Rightarrow> buffer list option" where
  "consumeStream [] buffers = None"
| "consumeStream (Data chunk # es) buffers = consumeStream es (buffers @ [chunk])"
| "consumeStream (End # es) buffers = Some buffers"

text \<open>
  The \<open>end\<close> listener. When \<open>channels.get\<close> finds no channel the listener throws
  before \<open>resolve\<close> is reached, and the promise of the file sender stays pending.
\<close>

definition uploadFile ::
  "dcBot \<Rightarrow> relayJob \<Rightarrow> string \<Rightarrow> buffer list \<Rightarrow> string \<Rightarrow> world \<Rightarrow> dcMessageId promise \<times> world" where
  "uploadFile dc job txt buffers extension w =
     (if \<not> channels dc (discordChannel job) then (Pending, w)
      else
        (sendWithFile dc (discordChannel job) txt (concat buffers) (fileName job @ extension),
         callDiscord
           (SendFile (discordChannel job) txt (concat buffers) (fileName job @ extension)) w))"

definition sendFile ::
  "tgBot \<Rightarrow> dcBot \<Rightarrow> messageConverter \<Rightarrow> relayJob \<Rightarrow> world \<Rightarrow> dcMessageId promise \<times> world" where
  "sendFile tg dc conv job w =
     (let txt = textToSend conv job in
      case ready dc of
        Pending \<Rightarrow> (Pending, w)
      | Rejected err \<Rightarrow> (Rejected err, w)
      | Resolved _ \<Rightarrow>
          (let w1 = callTelegram (GetFile (fileId job)) w in
           case getFile tg (fileId job) of
             Pending \<Rightarrow> (Pending, w1)
           | Rejected err \<Rightarrow> (Rejected err, w1)
           | Resolved file \<Rightarrow>
               (case resolvedExtension job file of
                  Inl err \<Rightarrow> (Rejected err, w1)
                | Inr extension \<Rightarrow>
                    (let w2 = callTelegram (GetFileStream file) w1 in
                     case helperGetFileStream tg file of
                       Pending \<Rightarrow> (Pending, w2)
                     | Rejected err \<Rightarrow> (Rejected err, w2)
                     | Resolved fileStream \<Rightarrow>
                         (case consumeStream fileStream [] of
                            None \<Rightarrow> (Pending, w2)
                          | Some buffers \<Rightarrow> uploadFile dc job txt buffers extension w2)))))"

section \<open>The handlers that the module registers\<close>

definition bracketed :: "bridge \<Rightarrow> string \<Rightarrow> string" where
  "bracketed b s = ''['' @ name b @ ''] '' @ s"

text \<open>
  The listeners for \<open>text\<close>, \<open>sticker\<close> and \<open>messageEdit\<close>. The listeners for
  \<open>photo\<close>, \<open>document\<close>, \<open>voice\<close>, \<open>audio\<close> and \<open>video\<close> build their relay
  job in the same way as the one for \<open>sticker\<close> and hand it to the file sender.
\<close>

definition textFailed :: "bridge \<Rightarrow> message \<Rightarrow> js_error \<Rightarrow> world \<Rightarrow> world" where
  "textFailed b m err w =
     logLine (LoggerError (bracketed b ''Failed message:'') [StrArg (msg_text m)])
       (logLine (LoggerError (bracketed b ''Discord did not accept a text message:'') [ErrArg err]) w)"

definition textHandler ::
  "dcBot \<Rightarrow> messageConverter \<Rightarrow> message \<Rightarrow> bridge \<Rightarrow> world \<Rightarrow> world" where
  "textHandler dc conv m b w =
     (let messageObj = conv m in
      case ready dc of
        Pending \<Rightarrow> w
      | Rejected err \<Rightarrow> textFailed b m err w
      | Resolved _ \<Rightarrow>
          (if \<not> channels dc (channel (discord b)) then
             textFailed b m (TypeError ''Cannot read property send of undefined'') w
           else
             (let w1 = callDiscord (Send (channel (discord b)) (composed messageObj)) w in
              case send dc (channel (discord b)) (composed messageObj) of
                Pending \<Rightarrow> w1
              | Rejected err \<Rightarrow> textFailed b m err w1
              | Resolved dcMessage \<Rightarrow>
                  insertMapping TELEGRAM_TO_DISCORD (message_id m) dcMessage w1)))"

text \<open>
  The listener for \<open>sticker\<close>. The argument object is built first, property by
  property; reading \<open>thumb\<close> or \<open>file_id\<close> of \<open>undefined\<close> throws inside the \<open>try\<close>.
\<close>

definition stickerJob :: "settings \<Rightarrow> message \<Rightarrow> bridge \<Rightarrow> js_error + relayJob" where
  "stickerJob cfg m b =
     (case sticker m of
        None \<Rightarrow> Inl (TypeError ''Cannot read property thumb of undefined'')
      | Some s \<Rightarrow>
          (case thumb s of
             None \<Rightarrow> Inl (TypeError ''Cannot read property file_id of undefined'')
           | Some t \<Rightarrow>
               Inr \<lparr> discordChannel = channel (discord b),
                     relayed = m,
                     fileId = file_id t,
                     fileName = ''sticker.webp'',
                     jobCaption = (if sendEmojiWithStickers (telegram cfg) then emoji s else None),
                     resolveExtension = None \<rparr>))"

definition stickerFailed :: "bridge \<Rightarrow> js_error \<Rightarrow> world \<Rightarrow> world" where
  "stickerFailed b err w =
     logLine (LoggerError (bracketed b ''Could not send sticker'') [ErrArg err]) w"

definition stickerHandler ::
  "settings \<Rightarrow> tgBot \<Rightarrow> dcBot \<Rightarrow> messageConverter \<Rightarrow> message \<Rightarrow> bridge \<Rightarrow> world \<Rightarrow> world" where
  "stickerHandler cfg tg dc conv m b w =
     (case stickerJob cfg m b of
        Inl err \<Rightarrow> stickerFailed b err w
      | Inr job \<Rightarrow>
          (case sendFile tg dc conv job w of
             (Rejected err, w1) \<Rightarrow> stickerFailed b err w1
           | (_, w1) \<Rightarrow> w1))"

text \<open>The listener for \<open>messageEdit\<close>.\<close>

definition editFailed :: "bridge \<Rightarrow> js_error \<Rightarrow> world \<Rightarrow> world" where
  "editFailed b err w =
     logLine (LoggerError (bracketed b ''Could not edit Discord message:'') [ErrArg err]) w"

definition messageEditHandler ::
  "dcBot \<Rightarrow> messageConverter \<Rightarrow> message \<Rightarrow> bridge \<Rightarrow> world \<Rightarrow> world" where
  "messageEditHandler dc conv tgMessage b w =
     (case ready dc of
        Pending \<Rightarrow> w
      | Rejected err \<Rightarrow> editFailed b err w
      | Resolved _ \<Rightarrow>
          (case getCorresponding TELEGRAM_TO_DISCORD (message_id tgMessage) w of
             Inl err \<Rightarrow> editFailed b err w
           | Inr dcMessageId \<Rightarrow>
               (if \<not> channels dc (channel (discord b)) then
                  editFailed b (TypeError ''Cannot read property fetchMessage of undefined'') w
                else
                  (let w1 = callDiscord (FetchMessage (channel (discord b)) dcMessageId) w in
                   case fetchMessage dc (channel (discord b)) dcMessageId of
                     Pending \<Rightarrow> w1
                   | Rejected err \<Rightarrow> editFailed b err w1
                   | Resolved _ \<Rightarrow>
                       (let messageObj = conv tgMessage;
                            w2 = callDiscord
                                   (Edit (channel (discord b)) dcMessageId (composed messageObj)) w1
                        in case edit dc (channel (discord b)) dcMessageId (composed messageObj) of
                             Pending \<Rightarrow> w2
                           | Rejected err \<Rightarrow> editFailed b err w2
                           | Resolved _ \<Rightarrow> w2)))))"

section \<open>The update getter\<close>

text \<open>
  What one call of \<open>bot.getUpdates\<close> settles to: the error it rejects with or the
  batch of updates. The source platform is a function of the arguments of the call,
  the pair of \<open>offset\<close> and \<open>timeout\<close>, and of the number of calls made before it, so
  that a scripted source can answer its \<open>k\<close>-th call with its \<open>k\<close>-th batch.
\<close>

type_synonym fetch_result = "js_error + update list"
type_synonym getUpdates = "int \<times> int \<Rightarrow> nat \<Rightarrow> fetch_result"

definition DEFAULT_TIMEOUT :: int where
  "DEFAULT_TIMEOUT = 60"

text \<open>
  \<open>clearInitialUpdates\<close> calls itself until a batch is empty. Nothing bounds the
  number of calls, so the function is partial: \<open>None\<close> is the run that never returns.
  A rejected \<open>getUpdates\<close> rejects the whole chain of calls.
\<close>

partial_function (option) clearInitialUpdates ::
  "getUpdates \<Rightarrow> nat \<Rightarrow> int \<Rightarrow> (js_error + int) option" where
  "clearInitialUpdates api k offset =
     (case api (offset, 0) k of
        Inl err \<Rightarrow> Some (Inl err)
      | Inr updates \<Rightarrow>
          (if updates \<noteq> [] then
             do {
               newestOffset \<leftarrow> clearInitialUpdates api (Suc k) (update_id (last updates) + 1);
               Some newestOffset
             }
           else Some (Inr offset)))"

declare clearInitialUpdates.simps [code]

text \<open>
  The state of the poller: the variable \<open>offset\<close>, the events emitted so far (the
  name and the message), the arguments of every \<open>getUpdates\<close> call made, and the log.
\<close>

record poller =
  offset :: int
  emitted :: "(string \<times> message) list"
  fetches :: "(int \<times> int) list"
  pollLog :: "log_entry list"

definition emit :: "string \<Rightarrow> message \<Rightarrow> poller \<Rightarrow> poller" where
  "emit event m p = p\<lparr>emitted := emitted p @ [(event, m)]\<rparr>"

text \<open>The chain that determines the type of a message, the second test of \<open>voice\<close> included.\<close>

definition emitMessage :: "message \<Rightarrow> poller \<Rightarrow> poller" where
  "emitMessage m p =
     (if msg_text m \<noteq> None then emit ''text'' m p
      else if photo m \<noteq> None then emit ''photo'' m p
      else if document m \<noteq> None then emit ''document'' m p
      else if voice m \<noteq> None then emit ''voice'' m p
      else if audio m \<noteq> None then emit ''audio'' m p
      else if voice m \<noteq> None then emit ''voice'' m p
      else if video m \<noteq> None then emit ''video'' m p
      else if sticker m \<noteq> None then emit ''sticker'' m p
      else p)"

text \<open>
  The body of \<open>updates.forEach\<close>. \<open>update.message || update.channel_post\<close> is the
  message when there is one and the channel post otherwise.
\<close>

definition handleUpdate :: "update \<Rightarrow> poller \<Rightarrow> poller" where
  "handleUpdate u p =
     (let p1 = p\<lparr>offset := update_id u + 1\<rparr> in
      if message u \<noteq> None \<or> channel_post u \<noteq> None then
        (case (case message u of Some m \<Rightarrow> Some m | None \<Rightarrow> channel_post u) of
           Some m \<Rightarrow> emitMessage m p1
         | None \<Rightarrow> p1)
      else if edited_message u \<noteq> None then
        (case edited_message u of
           Some m \<Rightarrow> emit ''messageEdit'' m p1
         | None \<Rightarrow> p1)
      else p1)"

definition fetchFailed :: "js_error \<Rightarrow> poller \<Rightarrow> poller" where
  "fetchFailed err p =
     p\<lparr>pollLog := pollLog p
          @ [LoggerError ''Couldn't fetch Telegram messages. Reason:'' [ErrArg err]]\<rparr>"

definition callGetUpdates :: "settings \<Rightarrow> poller \<Rightarrow> poller" where
  "callGetUpdates cfg p =
     (let p1 = (if debug cfg
                then p\<lparr>pollLog := pollLog p @ [LoggerLog ''Fetching Telegram updates'']\<rparr>
                else p)
      in p1\<lparr>fetches := fetches p1 @ [(offset p1, DEFAULT_TIMEOUT)]\<rparr>)"

text \<open>
  One run of the body of \<open>fetchUpdates\<close> in \<open>updateGetter\<close> (the first revision),
  given what its \<open>getUpdates\<close> call settles to.
\<close>

definition updateGetter_fetchUpdates :: "settings \<Rightarrow> fetch_result \<Rightarrow> poller \<Rightarrow> poller" where
  "updateGetter_fetchUpdates cfg r p =
     (let p1 = callGetUpdates cfg p in
      case r of
        Inl err \<Rightarrow> fetchFailed err p1
      | Inr updates \<Rightarrow> foldl (\<lambda>q u. handleUpdate u q) p1 updates)"

text \<open>
  One run of the body of \<open>fetchUpdates\<close> in \<open>makeUpdateEmitter\<close> (the second
  revision). \<open>handleUpdates\<close> is required from \<open>./handleUpdates\<close> and is not part of
  the module: it is a parameter, answering the id it returns or the error it throws.
\<close>

definition makeUpdateEmitter_fetchUpdates ::
  "settings \<Rightarrow> (update list \<Rightarrow> js_error + int) \<Rightarrow> fetch_result \<Rightarrow> poller \<Rightarrow> poller" where
  "makeUpdateEmitter_fetchUpdates cfg handleUpdates r p =
     (let p1 = callGetUpdates cfg p in
      case r of
        Inl err \<Rightarrow> fetchFailed err p1
      | Inr updates \<Rightarrow>
          (case handleUpdates updates of
             Inl err \<Rightarrow> fetchFailed err p1
           | Inr newest \<Rightarrow> p1\<lparr>offset := newest + 1\<rparr>))"

text \<open>
  \<open>fetchUpdates\<close> ends by calling itself and never returns. \<open>fetchLoop\<close> is the
  first \<open>n\<close> runs of its body against a source platform.
\<close>

fun fetchLoop :: "settings \<Rightarrow> getUpdates \<Rightarrow> nat \<Rightarrow> poller \<Rightarrow> poller" where
  "fetchLoop cfg api 0 p = p"
| "fetchLoop cfg api (Suc n) p =
     fetchLoop cfg api n
       (updateGetter_fetchUpdates cfg (api (offset p, DEFAULT_TIMEOUT) (length (fetches p))) p)"

text \<open>A scripted source answers its \<open>k\<close>-th call with the \<open>k\<close>-th batch of the script.\<close>

definition scripted :: "(nat \<Rightarrow> update list) \<Rightarrow> getUpdates" where
  "scripted script = (\<lambda>args k. Inr (script k))"

text \<open>
  The event names for which the module registers a listener with \<open>tgBot.on\<close>, in
  the order of the registrations.
\<close>

definition registeredEvents :: "string list" where
  "registeredEvents =
     [''text'', ''photo'', ''sticker'', ''document'', ''voice'', ''audio'', ''video'',
      ''messageEdit'']"

section \<open>The router in the words of the specification\<close>

text \<open>
  The specification describes the classification as one chain: the payload fields
  are inspected in a fixed priority order, the first one that the update carries
  wins, and an update that carries none produces no event. \<open>routeBySpec\<close> is that
  description, to be compared with \<open>handleUpdate\<close>. The seven message fields are
  those of the message of the update (the ordinary message, or else the channel
  post, which the source treats the same); the edited message is a field of the
  update itself.
\<close>

definition priorityOrder :: "string list" where
  "priorityOrder =
     [''text'', ''photo'', ''document'', ''voice'', ''audio'', ''video'', ''sticker'',
      ''messageEdit'']"

definition messageCarries :: "message \<Rightarrow> string \<Rightarrow> bool" where
  "messageCarries m k =
     (k = ''text'' \<and> msg_text m \<noteq> None
      \<or> k = ''photo'' \<and> photo m \<noteq> None
      \<or> k = ''document'' \<and> document m \<noteq> None
      \<or> k = ''voice'' \<and> voice m \<noteq> None
      \<or> k = ''audio'' \<and> audio m \<noteq> None
      \<or> k = ''video'' \<and> video m \<noteq> None
      \<or> k = ''sticker'' \<and> sticker m \<noteq> None)"

definition payloadMessage :: "update \<Rightarrow> message option" where
  "payloadMessage u = (case message u of Some m \<Rightarrow> Some m | None \<Rightarrow> channel_post u)"

text \<open>The message to dispatch when the update carries the payload field \<open>k\<close>.\<close>

definition carried :: "update \<Rightarrow> string \<Rightarrow> message option" where
  "carried u k =
     (if k = ''messageEdit'' then edited_message u
      else
        (case payloadMessage u of
           None \<Rightarrow> None
         | Some m \<Rightarrow> if messageCarries m k then Some m else None))"

fun firstCarried :: "update \<Rightarrow> string list \<Rightarrow> (string \<times> message) list" where
  "firstCarried u [] = []"
| "firstCarried u (k # ks) =
     (case carried u k of Some m \<Rightarrow> [(k, m)] | None \<Rightarrow> firstCarried u ks)"

definition routeBySpec :: "update \<Rightarrow> (string \<times> message) list" where
  "routeBySpec u = firstCarried u priorityOrder"

section \<open>Concrete values\<close>

text \<open>
  The values that the theorems below are instantiated at: an empty world, a text
  message, a bridge to the channel \<open>general\<close>, a converter, and the two platforms
  in the states the examples of the specification describe.
\<close>

definition emptyWorld :: world where
  "emptyWorld = \<lparr> tgCalls = [], dcCalls = [], logged = [], messageMap = Map.empty \<rparr>"

definition textMessage :: "int \<Rightarrow> int \<Rightarrow> string \<Rightarrow> message" where
  "textMessage mid cid t =
     \<lparr> message_id = mid, chat = \<lparr> chat_id = cid \<rparr>, msg_text = Some t, caption = None,
       photo = None, document = None, voice = None, audio = None, video = None,
       sticker = None \<rparr>"

definition exampleBridge :: bridge where
  "exampleBridge = \<lparr> name = ''bridge1'', discord = \<lparr> channel = ''general'' \<rparr> \<rparr>"

definition plainConverter :: messageConverter where
  "plainConverter m =
     \<lparr> sender = ''alice'',
       composed = ''**alice**: '' @ (case msg_text m of None \<Rightarrow> [] | Some t \<Rightarrow> t) \<rparr>"

definition unresolvedBot :: tgBot where
  "unresolvedBot =
     \<lparr> me = None, sendMessageThrows = None,
       getFile = (\<lambda>i. Pending), helperGetFileStream = (\<lambda>f. Pending) \<rparr>"

definition resolvedBot :: tgBot where
  "resolvedBot = unresolvedBot\<lparr> me := Some \<lparr> username = ''TediBot'' \<rparr> \<rparr>"

definition noRelay :: "message \<Rightarrow> bridge \<Rightarrow> world \<Rightarrow> world" where
  "noRelay m b w = w"

definition readyDiscord :: dcBot where
  "readyDiscord =
     \<lparr> ready = Resolved (), channels = (\<lambda>c. c = ''general''),
       send = (\<lambda>c t. Resolved ''555''),
       sendWithFile = (\<lambda>c t blob n. Resolved ''556''),
       fetchMessage = (\<lambda>c i. Resolved ()),
       edit = (\<lambda>c i t. Resolved ()) \<rparr>"

definition refusingDiscord :: dcBot where
  "refusingDiscord =
     readyDiscord\<lparr> send := (\<lambda>c t. Rejected (Failure ''Missing Permissions'')) \<rparr>"

definition mappedWorld :: world where
  "mappedWorld = insertMapping TELEGRAM_TO_DISCORD 10 ''555'' emptyWorld"

text \<open>The emoji U+1F600, as its UTF-8 bytes.\<close>

definition grinningFace :: string where
  "grinningFace = [CHR 0xF0, CHR 0x9F, CHR 0x98, CHR 0x80]"

definition stickerMessage :: message where
  "stickerMessage =
     \<lparr> message_id = 11, chat = \<lparr> chat_id = 1 \<rparr>, msg_text = None, caption = None,
       photo = None, document = None, voice = None, audio = None, video = None,
       sticker = Some \<lparr> thumb = Some \<lparr> file_id = ''thumb1'' \<rparr>, emoji = Some grinningFace \<rparr> \<rparr>"

text \<open>A sticker that has no emoji, and the message that carries it.\<close>

definition plainSticker :: sticker where
  "plainSticker = \<lparr> thumb = Some \<lparr> file_id = ''thumb2'' \<rparr>, emoji = None \<rparr>"

definition plainStickerMessage :: message where
  "plainStickerMessage = stickerMessage\<lparr> message_id := 13, sticker := Some plainSticker \<rparr>"

definition emojiSettings :: "bool \<Rightarrow> settings" where
  "emojiSettings flag =
     \<lparr> debug = False, telegram = \<lparr> sendEmojiWithStickers = flag, skipOldMessages = False \<rparr> \<rparr>"

definition voiceJob :: "bool \<Rightarrow> relayJob" where
  "voiceJob r =
     \<lparr> discordChannel = ''general'', relayed = textMessage 12 1 ''x'', fileId = ''file1'',
       fileName = ''voice'', jobCaption = None, resolveExtension = Some r \<rparr>"

text \<open>A Telegram side whose file has the path \<open>foo/bar.ogg\<close> and arrives as \<open>AB\<close>, \<open>CD\<close>.\<close>

definition oggBot :: tgBot where
  "oggBot =
     \<lparr> me = None, sendMessageThrows = None,
       getFile = (\<lambda>i. Resolved \<lparr> file_path = Some ''foo/bar.ogg'' \<rparr>),
       helperGetFileStream = (\<lambda>f. Resolved [Data [0x41, 0x42], Data [0x43, 0x44], End]) \<rparr>"

definition initialPoller :: poller where
  "initialPoller = \<lparr> offset = 0, emitted = [], fetches = [], pollLog = [] \<rparr>"

definition quietSettings :: settings where
  "quietSettings = emojiSettings False"

definition textUpdate :: "int \<Rightarrow> update" where
  "textUpdate i =
     \<lparr> update_id = i, message = Some (textMessage i 1 ''hi''), channel_post = None,
       edited_message = None \<rparr>"

text \<open>A script: the batch with the id 9, then the batch with the id 3, then empty batches.\<close>

definition staleScript :: "nat \<Rightarrow> update list" where
  "staleScript k = (if k = 0 then [textUpdate 9] else if k = 1 then [textUpdate 3] else [])"

text \<open>A backlog of three batches of decreasing size, then nothing more.\<close>

definition backlogScript :: "nat \<Rightarrow> update list" where
  "backlogScript k =
     (if k = 0 then [textUpdate 4, textUpdate 5, textUpdate 6]
      else if k = 1 then [textUpdate 7, textUpdate 8]
      else if k = 2 then [textUpdate 9]
      else [])"

text \<open>
  A source that keeps a queue of updates and answers every call with those whose id
  is not below the offset asked for, as the Telegram API does.
\<close>

definition queueSource :: "update list \<Rightarrow> getUpdates" where
  "queueSource queue = (\<lambda>args k. Inr (filter (\<lambda>u. fst args \<le> update_id u) queue))"

text \<open>A \<open>handleUpdates\<close> that returns the id of the last update of the batch.\<close>

definition lastIdHandler :: "update list \<Rightarrow> js_error + int" where
  "lastIdHandler us = Inr (update_id (last us))"

text \<open>
  A \<open>handleUpdates\<close> that returns 0 whatever the batch, and one that throws.
\<close>

definition zeroHandler :: "update list \<Rightarrow> js_error + int" where
  "zeroHandler us = Inr 0"

definition throwingHandler :: "update list \<Rightarrow> js_error + int" where
  "throwingHandler us = Inl (TypeError ''Cannot read property of undefined'')"

text \<open>
  A message with no payload field the router knows, an update that carries it
  together with an edited message, and the update with the edited message alone.
\<close>

definition bareMessage :: message where
  "bareMessage =
     \<lparr> message_id = 20, chat = \<lparr> chat_id = 1 \<rparr>, msg_text = None, caption = None,
       photo = None, document = None, voice = None, audio = None, video = None,
       sticker = None \<rparr>"

definition doubleUpdate :: update where
  "doubleUpdate =
     \<lparr> update_id = 30, message = Some bareMessage, channel_post = None,
       edited_message = Some (textMessage 10 1 ''new'') \<rparr>"

definition editUpdate :: update where
  "editUpdate = doubleUpdate\<lparr> message := None \<rparr>"

text \<open>A message that carries a text and a photo at once.\<close>

definition captionedPhoto :: message where
  "captionedPhoto = (textMessage 21 1 ''look'')\<lparr> photo := Some [\<lparr> file_id = ''p1'' \<rparr>] \<rparr>"

definition photoUpdate :: update where
  "photoUpdate =
     \<lparr> update_id = 31, message = None, channel_post = Some captionedPhoto,
       edited_message = None \<rparr>"

section \<open>Clearing the backlog\<close>

lemma clearInitialUpdates_scripted:
  "clearInitialUpdates (scripted script) k off
     = (if script k \<noteq> []
        then clearInitialUpdates (scripted script) (Suc k) (update_id (last (script k)) + 1)
        else Some (Inr off))"
  by (subst clearInitialUpdates.simps) (simp add: scripted_def)

lemma clearInitialUpdates_run:
  "\<forall>i<n. script (k + i) \<noteq> [] \<Longrightarrow> script (k + n) = [] \<Longrightarrow>
     clearInitialUpdates (scripted script) k off
       = Some (Inr (if n = 0 then off else update_id (last (script (k + n - 1))) + 1))"
proof (induction n arbitrary: k off)
  case 0
  then show ?case by (simp add: clearInitialUpdates_scripted)
next
  case (Suc n)
  from Suc.prems(1) have first: "script k \<noteq> []" by (metis add.right_neutral zero_less_Suc)
  from Suc.prems(1) have rest: "\<forall>i<n. script (Suc k + i) \<noteq> []" by auto
  from Suc.prems(2) have stop: "script (Suc k + n) = []" by simp
  have "clearInitialUpdates (scripted script) k off
          = clearInitialUpdates (scripted script) (Suc k) (update_id (last (script k)) + 1)"
    using first by (simp add: clearInitialUpdates_scripted)
  also have "\<dots> = Some (Inr (if n = 0 then update_id (last (script k)) + 1
                                else update_id (last (script (Suc k + n - 1))) + 1))"
    by (rule Suc.IH [OF rest stop])
  finally show ?case by (cases n) simp_all
qed

lemma clearInitialUpdates_first_empty:
  assumes "script n = []" and "\<forall>i<n. script i \<noteq> []"
  shows "clearInitialUpdates (scripted script) 0 off
           = Some (Inr (if n = 0 then off else update_id (last (script (n - 1))) + 1))
       \<and> (sorted_wrt (<) (map update_id (concat (map script [0..<n]))) \<longrightarrow>
            (\<forall>i<n. \<forall>u\<in>set (script i).
               \<exists>r. clearInitialUpdates (scripted script) 0 off = Some (Inr r)
                    \<and> update_id u < r))"
proof -
  have run: "clearInitialUpdates (scripted script) 0 off
           = Some (Inr (if n = 0 then off else update_id (last (script (n - 1))) + 1))"
    using clearInitialUpdates_run [of n script 0 off] assms by simp
  have past: "\<exists>r. clearInitialUpdates (scripted script) 0 off = Some (Inr r) \<and> update_id u < r"
    if sorted: "sorted_wrt (<) (map update_id (concat (map script [0..<n])))"
      and i: "i < n" and u: "u \<in> set (script i)" for i u
  proof -
    from i have n: "n \<noteq> 0" by simp
    let ?l = "last (script (n - 1))"
    from n assms(2) have ne: "script (n - 1) \<noteq> []" by simp
    have seen: "concat (map script [0..<n]) = concat (map script [0..<n - 1]) @ script (n - 1)"
      using n by (cases n) simp_all
    have "update_id u \<le> update_id ?l"
    proof (cases "i = n - 1")
      case True
      from ne obtain xs l where xs: "script (n - 1) = xs @ [l]"
        by (cases "script (n - 1)" rule: rev_cases) auto
      from sorted seen have "sorted_wrt (<) (map update_id (script (n - 1)))"
        by (simp add: sorted_wrt_append)
      then have "\<forall>v\<in>set xs. update_id v < update_id l"
        unfolding xs by (simp add: sorted_wrt_append)
      moreover have "u \<in> set xs \<or> u = l"
      proof -
        from u True have "u \<in> set (script (n - 1))" by simp
        then have "u \<in> set (xs @ [l])" by (simp only: xs)
        then show ?thesis by auto
      qed
      moreover have "?l = l" unfolding xs by simp
      ultimately show ?thesis by auto
    next
      case False
      with i have "i < n - 1" by simp
      with u have "u \<in> set (concat (map script [0..<n - 1]))" by auto
      moreover from ne have "?l \<in> set (script (n - 1))" by simp
      moreover from sorted seen
      have "\<forall>x\<in>set (concat (map script [0..<n - 1])).
              \<forall>y\<in>set (script (n - 1)). update_id x < update_id y"
        by (auto simp add: sorted_wrt_append)
      ultimately have "update_id u < update_id ?l" by blast
      then show ?thesis by simp
    qed
    with run n show ?thesis by simp
  qed
  from run past show ?thesis by blast
qed

text \<open>
  C7, as the source has it. Against a scripted source whose script holds an empty
  batch, \<open>clearInitialUpdates\<close> returns: with \<open>n\<close> the position of the first empty
  batch, the result is the offset it was called with when \<open>n = 0\<close>, and otherwise
  the id of the last update of batch \<open>n - 1\<close>, the last batch that is not empty,
  plus 1. The result is above every update id seen when the ids of the updates
  seen, in the order of their arrival, are strictly increasing; the function reads
  the last id of each batch only and does not compare ids.
\<close>

theorem backlog_clearing_terminates:
  assumes "\<exists>n. script n = []"
  shows "\<exists>n. script n = [] \<and> (\<forall>i<n. script i \<noteq> [])
           \<and> clearInitialUpdates (scripted script) 0 off
               = Some (Inr (if n = 0 then off else update_id (last (script (n - 1))) + 1))
           \<and> (sorted_wrt (<) (map update_id (concat (map script [0..<n]))) \<longrightarrow>
                (\<forall>i<n. \<forall>u\<in>set (script i).
                   \<exists>r. clearInitialUpdates (scripted script) 0 off = Some (Inr r)
                        \<and> update_id u < r))"
proof -
  define n where "n = (LEAST k. script k = [])"
  from assms have stop: "script n = []"
    unfolding n_def by (rule LeastI_ex)
  have run: "\<forall>i<n. script i \<noteq> []"
    unfolding n_def using not_less_Least by blast
  from clearInitialUpdates_first_empty [OF stop run, of off] stop run
  show ?thesis by blast
qed

theorem backlog_clearing_terminates_witness:
  "backlogScript 3 = []
   \<and> clearInitialUpdates (scripted backlogScript) 0 0 = Some (Inr 10)
   \<and> (\<exists>r. clearInitialUpdates (scripted backlogScript) 0 0 = Some (Inr r)
          \<and> update_id (textUpdate 6) < r)"
proof -
  have stop: "backlogScript 3 = []" by (simp add: backlogScript_def)
  then have ex: "\<exists>n. backlogScript n = []" by blast
  from backlog_clearing_terminates [OF ex, of 0]
  obtain n where n: "backlogScript n = []" "\<forall>i<n. backlogScript i \<noteq> []"
    and r: "clearInitialUpdates (scripted backlogScript) 0 0
              = Some (Inr (if n = 0 then 0 else update_id (last (backlogScript (n - 1))) + 1))"
    and past: "sorted_wrt (<) (map update_id (concat (map backlogScript [0..<n]))) \<longrightarrow>
                (\<forall>i<n. \<forall>u\<in>set (backlogScript i).
                   \<exists>r. clearInitialUpdates (scripted backlogScript) 0 0 = Some (Inr r)
                        \<and> update_id u < r)"
    by blast
  from n(1) have "3 \<le> n"
    by (simp add: backlogScript_def split: if_splits)
  moreover from n(2) stop have "\<not> 3 < n" by blast
  ultimately have n3: "n = 3" by simp
  moreover have "update_id (last (backlogScript (3 - 1))) + 1 = 10"
    by (simp add: backlogScript_def textUpdate_def)
  ultimately have ten: "clearInitialUpdates (scripted backlogScript) 0 0 = Some (Inr 10)"
    using r by simp
  have "sorted_wrt (<) (map update_id (concat (map backlogScript [0..<3])))"
    by (simp add: upt_rec backlogScript_def textUpdate_def)
  with past n3 have "\<forall>i<3. \<forall>u\<in>set (backlogScript i).
      \<exists>r. clearInitialUpdates (scripted backlogScript) 0 0 = Some (Inr r) \<and> update_id u < r"
    by simp
  moreover have "textUpdate 6 \<in> set (backlogScript 0)"
    by (simp add: backlogScript_def)
  ultimately have "\<exists>r. clearInitialUpdates (scripted backlogScript) 0 0 = Some (Inr r)
      \<and> update_id (textUpdate 6) < r"
    by (meson zero_less_numeral)
  with stop ten show ?thesis by simp
qed

text \<open>
  Without increasing ids the result need not be above every id seen: for the
  batches with the ids 9 and 3 and then an empty batch the function returns 4,
  having seen the id 9.
\<close>

theorem backlog_not_past_counterexample:
  "staleScript 2 = []
   \<and> textUpdate 9 \<in> set (staleScript 0)
   \<and> clearInitialUpdates (scripted staleScript) 0 0 = Some (Inr 4)
   \<and> \<not> update_id (textUpdate 9) < 4"
proof -
  have "clearInitialUpdates (scripted staleScript) 0 0
          = Some (Inr (if (2::nat) = 0 then 0 else update_id (last (staleScript (0 + 2 - 1))) + 1))"
    by (rule clearInitialUpdates_run) (simp_all add: staleScript_def less_Suc_eq numeral_2_eq_2)
  then show ?thesis
    by (simp add: staleScript_def textUpdate_def)
qed

section \<open>The cursor of the update getter\<close>

lemma offset_emit [simp]: "offset (emit e m p) = offset p"
  by (simp add: emit_def)

lemma offset_emitMessage [simp]: "offset (emitMessage m p) = offset p"
  by (simp add: emitMessage_def)

lemma offset_handleUpdate [simp]: "offset (handleUpdate u p) = update_id u + 1"
  by (simp add: handleUpdate_def Let_def split: option.splits)

lemma offset_forEach:
  "offset (foldl (\<lambda>q u. handleUpdate u q) p us)
     = (if us = [] then offset p else update_id (last us) + 1)"
  by (induction us arbitrary: p) simp_all

lemma offset_callGetUpdates [simp]: "offset (callGetUpdates cfg p) = offset p"
  by (simp add: callGetUpdates_def Let_def)

lemma fetches_callGetUpdates [simp]:
  "fetches (callGetUpdates cfg p) = fetches p @ [(offset p, DEFAULT_TIMEOUT)]"
  by (simp add: callGetUpdates_def Let_def)

lemma fetches_emit [simp]: "fetches (emit e m p) = fetches p"
  by (simp add: emit_def)

lemma fetches_emitMessage [simp]: "fetches (emitMessage m p) = fetches p"
  by (simp add: emitMessage_def)

lemma fetches_handleUpdate [simp]: "fetches (handleUpdate u p) = fetches p"
  by (simp add: handleUpdate_def Let_def split: option.splits)

lemma fetches_forEach [simp]:
  "fetches (foldl (\<lambda>q u. handleUpdate u q) p us) = fetches p"
  by (induction us arbitrary: p) simp_all

lemma offset_fetchUpdates:
  "offset (updateGetter_fetchUpdates cfg r p)
     = (case r of Inl err \<Rightarrow> offset p
        | Inr us \<Rightarrow> if us = [] then offset p else update_id (last us) + 1)"
  by (simp add: updateGetter_fetchUpdates_def Let_def fetchFailed_def offset_forEach
           split: sum.splits)

lemma fetches_fetchUpdates:
  "fetches (updateGetter_fetchUpdates cfg r p) = fetches p @ [(offset p, DEFAULT_TIMEOUT)]"
  by (simp add: updateGetter_fetchUpdates_def Let_def fetchFailed_def split: sum.splits)

lemma last_is_Max:
  "us \<noteq> [] \<Longrightarrow> sorted_wrt (<) (map update_id us) \<Longrightarrow>
     update_id (last us) = Max (update_id ` set us)"
proof (induction us rule: rev_induct)
  case Nil
  then show ?case by simp
next
  case (snoc u us)
  then have "\<forall>v\<in>set us. update_id v < update_id u"
    by (auto simp add: sorted_wrt_append)
  then have "Max (insert (update_id u) (update_id ` set us)) = update_id u"
    by (intro Max_eqI) auto
  then show ?case by simp
qed

lemma fetchLoop_monotone:
  assumes "\<forall>args k us. api args k = Inr us \<longrightarrow> (\<forall>u\<in>set us. fst args \<le> update_id u)"
  shows "offset p \<le> offset (fetchLoop cfg api n p)"
proof (induction n arbitrary: p)
  case 0
  show ?case by simp
next
  case (Suc n)
  let ?r = "api (offset p, DEFAULT_TIMEOUT) (length (fetches p))"
  have "offset p \<le> offset (updateGetter_fetchUpdates cfg ?r p)"
  proof (cases ?r)
    case (Inl err)
    then show ?thesis by (simp add: offset_fetchUpdates)
  next
    case (Inr us)
    with assms have "\<forall>u\<in>set us. offset p \<le> update_id u" by fastforce
    then have "us \<noteq> [] \<Longrightarrow> offset p \<le> update_id (last us)" by simp
    with Inr show ?thesis by (auto simp add: offset_fetchUpdates)
  qed
  also have "\<dots> \<le> offset (fetchLoop cfg api (Suc n) p)"
    using Suc.IH by simp
  finally show ?case .
qed

lemma offset_fetchUpdates2:
  "offset (makeUpdateEmitter_fetchUpdates cfg handleUpdates r p)
     = (case r of Inl err \<Rightarrow> offset p
        | Inr us \<Rightarrow> (case handleUpdates us of Inl err \<Rightarrow> offset p | Inr newest \<Rightarrow> newest + 1))"
  by (simp add: makeUpdateEmitter_fetchUpdates_def Let_def fetchFailed_def split: sum.splits)

lemma fetches_fetchUpdates2:
  "fetches (makeUpdateEmitter_fetchUpdates cfg handleUpdates r p)
     = fetches p @ [(offset p, DEFAULT_TIMEOUT)]"
  by (simp add: makeUpdateEmitter_fetchUpdates_def Let_def fetchFailed_def split: sum.splits)

text \<open>
  C2, as the source has it.

  Both revisions: a fetch that fails leaves \<open>offset\<close> unchanged, and the next call
  of \<open>getUpdates\<close> asks with the same offset.

  First revision (\<open>updateGetter\<close>): a successful batch that is not empty and whose
  update ids are strictly increasing sets \<open>offset\<close> to the greatest id of the batch
  plus 1; an empty batch leaves \<open>offset\<close> unchanged; the offset does not decrease
  over a fetch whose batch holds no id below the offset asked with, and so never
  decreases in a run against a source that answers only with ids from the offset
  on. Nothing in the source compares an id with the offset.

  Second revision (\<open>makeUpdateEmitter\<close>): after every successful fetch, of an empty
  batch too, \<open>offset\<close> is what \<open>handleUpdates\<close> returns plus 1, and it is unchanged
  when \<open>handleUpdates\<close> throws. So the offset is the greatest id plus 1, for a batch
  that is not empty and has strictly increasing ids, when \<open>handleUpdates\<close> returns
  the id of the last update; and it is not below the offset before exactly when
  the value returned is not below that offset minus 1. \<open>handleUpdates\<close> is not part
  of the module, and nothing more holds of this revision for an empty batch or for
  the order of the offsets.
\<close>

theorem cursor_advances:
  "(\<forall>err. offset (updateGetter_fetchUpdates cfg (Inl err) p) = offset p
         \<and> fetches (updateGetter_fetchUpdates cfg r (updateGetter_fetchUpdates cfg (Inl err) p))
             = fetches p @ [(offset p, DEFAULT_TIMEOUT), (offset p, DEFAULT_TIMEOUT)]
         \<and> offset (makeUpdateEmitter_fetchUpdates cfg handleUpdates (Inl err) p) = offset p
         \<and> fetches (makeUpdateEmitter_fetchUpdates cfg handleUpdates r
                      (makeUpdateEmitter_fetchUpdates cfg handleUpdates (Inl err) p))
             = fetches p @ [(offset p, DEFAULT_TIMEOUT), (offset p, DEFAULT_TIMEOUT)])
   \<and> (\<forall>us. us \<noteq> [] \<and> sorted_wrt (<) (map update_id us) \<longrightarrow>
          offset (updateGetter_fetchUpdates cfg (Inr us) p) = Max (update_id ` set us) + 1
          \<and> (handleUpdates us = Inr (update_id (last us)) \<longrightarrow>
               offset (makeUpdateEmitter_fetchUpdates cfg handleUpdates (Inr us) p)
                 = Max (update_id ` set us) + 1))
   \<and> offset (updateGetter_fetchUpdates cfg (Inr []) p) = offset p
   \<and> (\<forall>us. (\<forall>u\<in>set us. offset p \<le> update_id u) \<longrightarrow>
          offset p \<le> offset (updateGetter_fetchUpdates cfg (Inr us) p))
   \<and> ((\<forall>args k us. api args k = Inr us \<longrightarrow> (\<forall>u\<in>set us. fst args \<le> update_id u)) \<longrightarrow>
        offset p \<le> offset (fetchLoop cfg api n p))
   \<and> (\<forall>us newest. handleUpdates us = Inr newest \<longrightarrow>
          offset (makeUpdateEmitter_fetchUpdates cfg handleUpdates (Inr us) p) = newest + 1
          \<and> (offset p \<le> offset (makeUpdateEmitter_fetchUpdates cfg handleUpdates (Inr us) p))
              = (offset p - 1 \<le> newest))
   \<and> (\<forall>us err. handleUpdates us = Inl err \<longrightarrow>
          offset (makeUpdateEmitter_fetchUpdates cfg handleUpdates (Inr us) p) = offset p)"
proof -
  have a: "\<And>err. offset (updateGetter_fetchUpdates cfg (Inl err) p) = offset p"
    by (simp add: offset_fetchUpdates)
  have b: "\<And>err. fetches (updateGetter_fetchUpdates cfg r (updateGetter_fetchUpdates cfg (Inl err) p))
             = fetches p @ [(offset p, DEFAULT_TIMEOUT), (offset p, DEFAULT_TIMEOUT)]"
    by (simp add: fetches_fetchUpdates offset_fetchUpdates)
  have c: "\<And>err. offset (makeUpdateEmitter_fetchUpdates cfg handleUpdates (Inl err) p) = offset p"
    by (simp add: offset_fetchUpdates2)
  have c': "\<And>err. fetches (makeUpdateEmitter_fetchUpdates cfg handleUpdates r
                      (makeUpdateEmitter_fetchUpdates cfg handleUpdates (Inl err) p))
             = fetches p @ [(offset p, DEFAULT_TIMEOUT), (offset p, DEFAULT_TIMEOUT)]"
    by (simp add: fetches_fetchUpdates2 offset_fetchUpdates2)
  have d: "\<And>us. us \<noteq> [] \<Longrightarrow> sorted_wrt (<) (map update_id us) \<Longrightarrow>
          offset (updateGetter_fetchUpdates cfg (Inr us) p) = Max (update_id ` set us) + 1"
    by (simp add: offset_fetchUpdates last_is_Max)
  have e: "\<And>us. us \<noteq> [] \<Longrightarrow> sorted_wrt (<) (map update_id us) \<Longrightarrow>
          handleUpdates us = Inr (update_id (last us)) \<Longrightarrow>
          offset (makeUpdateEmitter_fetchUpdates cfg handleUpdates (Inr us) p)
            = Max (update_id ` set us) + 1"
    by (simp add: offset_fetchUpdates2 last_is_Max)
  have f: "offset (updateGetter_fetchUpdates cfg (Inr []) p) = offset p"
    by (simp add: offset_fetchUpdates)
  have g: "\<And>us. \<forall>u\<in>set us. offset p \<le> update_id u \<Longrightarrow>
          offset p \<le> offset (updateGetter_fetchUpdates cfg (Inr us) p)"
  proof -
    fix us :: "update list" assume h: "\<forall>u\<in>set us. offset p \<le> update_id u"
    then have "us \<noteq> [] \<Longrightarrow> offset p \<le> update_id (last us)" by simp
    then show "offset p \<le> offset (updateGetter_fetchUpdates cfg (Inr us) p)"
      by (auto simp add: offset_fetchUpdates)
  qed
  have i: "\<And>us newest. handleUpdates us = Inr newest \<Longrightarrow>
          offset (makeUpdateEmitter_fetchUpdates cfg handleUpdates (Inr us) p) = newest + 1
          \<and> (offset p \<le> offset (makeUpdateEmitter_fetchUpdates cfg handleUpdates (Inr us) p))
              = (offset p - 1 \<le> newest)"
    by (auto simp add: offset_fetchUpdates2)
  have j: "\<And>us err. handleUpdates us = Inl err \<Longrightarrow>
          offset (makeUpdateEmitter_fetchUpdates cfg handleUpdates (Inr us) p) = offset p"
    by (simp add: offset_fetchUpdates2)
  have first: "(\<forall>err. offset (updateGetter_fetchUpdates cfg (Inl err) p) = offset p
         \<and> fetches (updateGetter_fetchUpdates cfg r (updateGetter_fetchUpdates cfg (Inl err) p))
             = fetches p @ [(offset p, DEFAULT_TIMEOUT), (offset p, DEFAULT_TIMEOUT)]
         \<and> offset (makeUpdateEmitter_fetchUpdates cfg handleUpdates (Inl err) p) = offset p
         \<and> fetches (makeUpdateEmitter_fetchUpdates cfg handleUpdates r
                      (makeUpdateEmitter_fetchUpdates cfg handleUpdates (Inl err) p))
             = fetches p @ [(offset p, DEFAULT_TIMEOUT), (offset p, DEFAULT_TIMEOUT)])"
    using a b c c' by blast
  have second: "(\<forall>us. us \<noteq> [] \<and> sorted_wrt (<) (map update_id us) \<longrightarrow>
          offset (updateGetter_fetchUpdates cfg (Inr us) p) = Max (update_id ` set us) + 1
          \<and> (handleUpdates us = Inr (update_id (last us)) \<longrightarrow>
               offset (makeUpdateEmitter_fetchUpdates cfg handleUpdates (Inr us) p)
                 = Max (update_id ` set us) + 1))"
    using d e by blast
  have third: "(\<forall>us. (\<forall>u\<in>set us. offset p \<le> update_id u) \<longrightarrow>
          offset p \<le> offset (updateGetter_fetchUpdates cfg (Inr us) p))"
    using g by blast
  have fourth: "((\<forall>args k us. api args k = Inr us \<longrightarrow> (\<forall>u\<in>set us. fst args \<le> update_id u)) \<longrightarrow>
        offset p \<le> offset (fetchLoop cfg api n p))"
    using fetchLoop_monotone [of api p cfg n] by blast
  have fifth: "(\<forall>us newest. handleUpdates us = Inr newest \<longrightarrow>
          offset (makeUpdateEmitter_fetchUpdates cfg handleUpdates (Inr us) p) = newest + 1
          \<and> (offset p \<le> offset (makeUpdateEmitter_fetchUpdates cfg handleUpdates (Inr us) p))
              = (offset p - 1 \<le> newest))"
    using i by blast
  have sixth: "(\<forall>us err. handleUpdates us = Inl err \<longrightarrow>
          offset (makeUpdateEmitter_fetchUpdates cfg handleUpdates (Inr us) p) = offset p)"
    using j by blast
  from first second f third fourth fifth sixth show ?thesis
    by (intro conjI)
qed

theorem cursor_advances_witness:
  "offset (updateGetter_fetchUpdates quietSettings (Inl (Failure ''ETIMEDOUT'')) initialPoller) = 0
   \<and> fetches (updateGetter_fetchUpdates quietSettings (Inr [])
                (updateGetter_fetchUpdates quietSettings (Inl (Failure ''ETIMEDOUT'')) initialPoller))
       = [(0, 60), (0, 60)]
   \<and> offset (updateGetter_fetchUpdates quietSettings (Inr [textUpdate 5, textUpdate 7]) initialPoller) = 8
   \<and> offset (makeUpdateEmitter_fetchUpdates quietSettings lastIdHandler
                (Inr [textUpdate 5, textUpdate 7]) initialPoller) = 8
   \<and> offset initialPoller
       \<le> offset (fetchLoop quietSettings (queueSource [textUpdate 5, textUpdate 7]) 2 initialPoller)
   \<and> offset (makeUpdateEmitter_fetchUpdates quietSettings zeroHandler (Inr []) initialPoller) = 1
   \<and> offset (makeUpdateEmitter_fetchUpdates quietSettings throwingHandler
                (Inr [textUpdate 5]) initialPoller) = 0"
proof -
  note t = cursor_advances [where cfg = quietSettings and p = initialPoller
      and r = "Inr []" and handleUpdates = lastIdHandler
      and api = "queueSource [textUpdate 5, textUpdate 7]" and n = 2]
  note tz = cursor_advances [where cfg = quietSettings and p = initialPoller
      and r = "Inr []" and handleUpdates = zeroHandler
      and api = "queueSource [textUpdate 5, textUpdate 7]" and n = 2]
  note tt = cursor_advances [where cfg = quietSettings and p = initialPoller
      and r = "Inr []" and handleUpdates = throwingHandler
      and api = "queueSource [textUpdate 5, textUpdate 7]" and n = 2]
  have ids: "[textUpdate 5, textUpdate 7] \<noteq> []
             \<and> sorted_wrt (<) (map update_id [textUpdate 5, textUpdate 7])"
    by (simp add: textUpdate_def)
  have mx: "Max (update_id ` set [textUpdate 5, textUpdate 7]) + 1 = 8"
    by (simp add: textUpdate_def)
  have h: "lastIdHandler [textUpdate 5, textUpdate 7]
             = Inr (update_id (last [textUpdate 5, textUpdate 7]))"
    by (simp add: lastIdHandler_def)
  have z: "zeroHandler [] = Inr 0"
    by (simp add: zeroHandler_def)
  have th: "throwingHandler [textUpdate 5] = Inl (TypeError ''Cannot read property of undefined'')"
    by (simp add: throwingHandler_def)
  have src: "\<forall>args k us. queueSource [textUpdate 5, textUpdate 7] args k = Inr us \<longrightarrow>
               (\<forall>u\<in>set us. fst args \<le> update_id u)"
    by (auto simp add: queueSource_def)
  from t have a: "offset (updateGetter_fetchUpdates quietSettings (Inl (Failure ''ETIMEDOUT'')) initialPoller)
                    = offset initialPoller"
    and b: "fetches (updateGetter_fetchUpdates quietSettings (Inr [])
                (updateGetter_fetchUpdates quietSettings (Inl (Failure ''ETIMEDOUT'')) initialPoller))
              = fetches initialPoller
                @ [(offset initialPoller, DEFAULT_TIMEOUT), (offset initialPoller, DEFAULT_TIMEOUT)]"
    by blast+
  from t ids have c: "offset (updateGetter_fetchUpdates quietSettings
                         (Inr [textUpdate 5, textUpdate 7]) initialPoller)
                    = Max (update_id ` set [textUpdate 5, textUpdate 7]) + 1"
    by blast
  from t ids h have d: "offset (makeUpdateEmitter_fetchUpdates quietSettings lastIdHandler
                         (Inr [textUpdate 5, textUpdate 7]) initialPoller)
                    = Max (update_id ` set [textUpdate 5, textUpdate 7]) + 1"
    by blast
  from t src have e: "offset initialPoller
       \<le> offset (fetchLoop quietSettings (queueSource [textUpdate 5, textUpdate 7]) 2 initialPoller)"
    by blast
  from tz z have f: "offset (makeUpdateEmitter_fetchUpdates quietSettings zeroHandler
                         (Inr []) initialPoller) = 0 + 1"
    by blast
  from tt th have g: "offset (makeUpdateEmitter_fetchUpdates quietSettings throwingHandler
                         (Inr [textUpdate 5]) initialPoller) = offset initialPoller"
    by blast
  from a b c d e f g mx show ?thesis
    by (simp add: initialPoller_def DEFAULT_TIMEOUT_def)
qed

text \<open>
  Without the condition on the source the offset can decrease: the body of
  \<open>forEach\<close> assigns the id of each update plus 1, whatever the offset was. After
  the batch with the id 9 the offset is 10, and after a following batch with the
  id 3 it is 4.
\<close>

theorem cursor_decreases_counterexample:
  "offset (fetchLoop quietSettings (scripted staleScript) 1 initialPoller) = 10
   \<and> offset (fetchLoop quietSettings (scripted staleScript) 2 initialPoller) = 4
   \<and> offset (fetchLoop quietSettings (scripted staleScript) 2 initialPoller)
       < offset (fetchLoop quietSettings (scripted staleScript) 1 initialPoller)"
  by (simp add: numeral_2_eq_2 offset_fetchUpdates scripted_def staleScript_def textUpdate_def
                fetches_fetchUpdates initialPoller_def)

section \<open>The classification of an update\<close>

lemma payloadMessage_mask:
  "payloadMessage (u\<lparr>edited_message := None\<rparr>) = payloadMessage u"
  by (cases "message u") (simp_all add: payloadMessage_def)

lemma emitted_emitMessage:
  "payloadMessage u = Some m \<Longrightarrow>
     emitted (emitMessage m p) = emitted p @ routeBySpec (u\<lparr>edited_message := None\<rparr>)"
  by (simp add: emitMessage_def emit_def routeBySpec_def priorityOrder_def carried_def
                messageCarries_def payloadMessage_mask)

lemma routeBySpec_edit:
  "payloadMessage u = None \<Longrightarrow>
     routeBySpec u = (case edited_message u of None \<Rightarrow> [] | Some m \<Rightarrow> [(''messageEdit'', m)])"
  by (simp add: routeBySpec_def priorityOrder_def carried_def split: option.splits)

lemma emitted_handleUpdate:
  "emitted (handleUpdate u p)
     = emitted p @ (case payloadMessage u of
                      Some m \<Rightarrow> routeBySpec (u\<lparr>edited_message := None\<rparr>)
                    | None \<Rightarrow> routeBySpec u)"
proof (cases "payloadMessage u")
  case None
  then have "message u = None" "channel_post u = None"
    by (auto simp add: payloadMessage_def split: option.splits)
  with None show ?thesis
    by (simp add: handleUpdate_def Let_def emit_def routeBySpec_edit split: option.splits)
next
  case (Some m)
  then have "message u \<noteq> None \<or> channel_post u \<noteq> None"
    by (auto simp add: payloadMessage_def split: option.splits)
  moreover from Some have "(case message u of Some m \<Rightarrow> Some m | None \<Rightarrow> channel_post u) = Some m"
    by (simp add: payloadMessage_def)
  ultimately have "handleUpdate u p = emitMessage m (p\<lparr>offset := update_id u + 1\<rparr>)"
    by (simp add: handleUpdate_def Let_def)
  with Some show ?thesis
    by (simp add: emitted_emitMessage)
qed

lemma routeBySpec_at_most_one: "length (routeBySpec u) \<le> 1"
  by (simp add: routeBySpec_def priorityOrder_def split: option.splits)

lemma routeBySpec_registered:
  "(k, m) \<in> set (routeBySpec u) \<Longrightarrow> count_list registeredEvents k = 1"
  by (auto simp add: routeBySpec_def priorityOrder_def registeredEvents_def split: option.splits)

lemma routeBySpec_none:
  "routeBySpec u = [] \<longleftrightarrow> (\<forall>k\<in>set priorityOrder. carried u k = None)"
  by (auto simp add: routeBySpec_def priorityOrder_def split: option.splits)

text \<open>
  C3, as the source has it. An update that carries a message or a channel post is
  classified by the fields of that message alone, the first of text, photo,
  document, voice, audio, video, sticker that is present, and its edited message is
  not looked at; an update that carries neither is dispatched as an edit when it
  carries an edited message. So the events emitted for an update are those of the
  specification's chain applied to the update with the edited message masked when a
  message is present, and they are those of the chain applied to the update itself
  whenever the update does not carry an edited message next to a message or channel
  post. The chain yields at most one event, none exactly when no recognized field
  is carried, and every event it yields has exactly one registered listener.
\<close>

theorem router_first_match:
  "emitted (handleUpdate u p)
     = emitted p @ (case payloadMessage u of
                      Some m \<Rightarrow> routeBySpec (u\<lparr>edited_message := None\<rparr>)
                    | None \<Rightarrow> routeBySpec u)
   \<and> (payloadMessage u = None \<or> edited_message u = None \<longrightarrow>
        emitted (handleUpdate u p) = emitted p @ routeBySpec u)
   \<and> length (routeBySpec u) \<le> 1
   \<and> (\<forall>k m. (k, m) \<in> set (routeBySpec u) \<longrightarrow> count_list registeredEvents k = 1)
   \<and> (routeBySpec u = [] \<longleftrightarrow> (\<forall>k\<in>set priorityOrder. carried u k = None))"
proof -
  have masked: "edited_message u = None \<Longrightarrow> u\<lparr>edited_message := None\<rparr> = u"
    by simp
  have "payloadMessage u = None \<or> edited_message u = None \<Longrightarrow>
          emitted (handleUpdate u p) = emitted p @ routeBySpec u"
    by (cases "payloadMessage u") (auto simp add: emitted_handleUpdate masked)
  then show ?thesis
    using emitted_handleUpdate [of u p] routeBySpec_at_most_one [of u]
      routeBySpec_registered [of _ _ u] routeBySpec_none [of u]
    by blast
qed

theorem router_first_match_witness:
  "emitted (handleUpdate editUpdate initialPoller)
     = [(''messageEdit'', textMessage 10 1 ''new'')]
   \<and> emitted (handleUpdate photoUpdate initialPoller) = [(''text'', captionedPhoto)]
   \<and> emitted (handleUpdate (editUpdate\<lparr>edited_message := None\<rparr>) initialPoller) = []
   \<and> count_list registeredEvents ''messageEdit'' = 1"
proof -
  have e: "payloadMessage editUpdate = None"
    by (simp add: payloadMessage_def editUpdate_def doubleUpdate_def)
  have re: "routeBySpec editUpdate = [(''messageEdit'', textMessage 10 1 ''new'')]"
    by (simp add: routeBySpec_def priorityOrder_def carried_def payloadMessage_def
                  editUpdate_def doubleUpdate_def)
  have ph: "edited_message photoUpdate = None"
    by (simp add: photoUpdate_def)
  have rp: "routeBySpec photoUpdate = [(''text'', captionedPhoto)]"
    by (simp add: routeBySpec_def priorityOrder_def carried_def payloadMessage_def
                  messageCarries_def photoUpdate_def captionedPhoto_def textMessage_def)
  have n: "edited_message (editUpdate\<lparr>edited_message := None\<rparr>) = None"
    by simp
  have rn: "routeBySpec (editUpdate\<lparr>edited_message := None\<rparr>) = []"
    by (simp add: routeBySpec_def priorityOrder_def carried_def payloadMessage_def
                  editUpdate_def doubleUpdate_def)
  from e router_first_match [of editUpdate initialPoller]
  have "emitted (handleUpdate editUpdate initialPoller)
          = emitted initialPoller @ routeBySpec editUpdate"
    by blast
  with re have a: "emitted (handleUpdate editUpdate initialPoller)
     = [(''messageEdit'', textMessage 10 1 ''new'')]"
    by (simp add: initialPoller_def)
  from ph router_first_match [of photoUpdate initialPoller]
  have "emitted (handleUpdate photoUpdate initialPoller)
          = emitted initialPoller @ routeBySpec photoUpdate"
    by blast
  with rp have b: "emitted (handleUpdate photoUpdate initialPoller) = [(''text'', captionedPhoto)]"
    by (simp add: initialPoller_def)
  from n router_first_match [of "editUpdate\<lparr>edited_message := None\<rparr>" initialPoller]
  have "emitted (handleUpdate (editUpdate\<lparr>edited_message := None\<rparr>) initialPoller)
          = emitted initialPoller @ routeBySpec (editUpdate\<lparr>edited_message := None\<rparr>)"
    by blast
  with rn have c: "emitted (handleUpdate (editUpdate\<lparr>edited_message := None\<rparr>) initialPoller) = []"
    by (simp add: initialPoller_def)
  from re router_first_match [of editUpdate initialPoller]
  have d: "count_list registeredEvents ''messageEdit'' = 1"
    by simp
  from a b c d show ?thesis by simp
qed

text \<open>
  An update that carries an edited message next to a message without any recognized
  field carries a recognized payload field, and first match in the priority order
  dispatches it as an edit; the source emits nothing for it.
\<close>

theorem router_counterexample:
  "carried doubleUpdate ''messageEdit'' = Some (textMessage 10 1 ''new'')
   \<and> routeBySpec doubleUpdate = [(''messageEdit'', textMessage 10 1 ''new'')]
   \<and> emitted (handleUpdate doubleUpdate initialPoller) = []"
  by (simp add: routeBySpec_def priorityOrder_def carried_def payloadMessage_def
                messageCarries_def doubleUpdate_def bareMessage_def handleUpdate_def
                emitMessage_def initialPoller_def Let_def)

section \<open>The authorization gate\<close>

text \<open>
  C5. A message from a chat that has no bridge, and that does not take the chat-info
  branch, makes the wrapper send exactly one message to Telegram: the fixed
  informational text, to the chat the message came from. No call reaches Discord,
  the message map is untouched, and the wrapped handler is not run: the result is
  the same whatever handler is wrapped.
\<close>

theorem unbridged_chat_one_reply:
  assumes "bridges (chat_id (chat m)) = None" and "\<not> isChatInfo tg m"
  shows "tgCalls (createMessageHandler tg bridges func m w)
           = tgCalls w @ [SendMessage (chat_id (chat m)) privateBotText (Some ''markdown'')]
       \<and> dcCalls (createMessageHandler tg bridges func m w) = dcCalls w
       \<and> messageMap (createMessageHandler tg bridges func m w) = messageMap w
       \<and> (\<forall>func'. createMessageHandler tg bridges func' m w
                     = createMessageHandler tg bridges func m w)"
  using assms
  by (simp add: createMessageHandler_def callTelegram_def logLine_def Let_def
           split: option.splits)

theorem unbridged_chat_one_reply_witness:
  "Map.empty (chat_id (chat (textMessage 10 (- 42) ''hello''))) = (None :: bridge option)
   \<and> \<not> isChatInfo resolvedBot (textMessage 10 (- 42) ''hello'')
   \<and> tgCalls (createMessageHandler resolvedBot Map.empty noRelay
                 (textMessage 10 (- 42) ''hello'') emptyWorld)
        = [SendMessage (- 42) privateBotText (Some ''markdown'')]
   \<and> dcCalls (createMessageHandler resolvedBot Map.empty noRelay
                 (textMessage 10 (- 42) ''hello'') emptyWorld) = []"
proof -
  have h1: "Map.empty (chat_id (chat (textMessage 10 (- 42) ''hello''))) = (None :: bridge option)"
    by simp
  have h2: "\<not> isChatInfo resolvedBot (textMessage 10 (- 42) ''hello'')"
    by (simp add: isChatInfo_def resolvedBot_def unresolvedBot_def textMessage_def
                  toLowerCase_def)
  show ?thesis
    using h2 unbridged_chat_one_reply [OF h1 h2, of noRelay emptyWorld]
    by (simp add: emptyWorld_def textMessage_def)
qed

text \<open>
  C10. The chat-info reply waits for the bot's identity. While \<open>me\<close> is
  \<open>undefined\<close> every message, whatever its text, goes through the authorization
  gate: the informational reply when the chat has no bridge, the wrapped handler
  when it has one. Once \<open>me\<close> is set, a text equal to \<open>@username chatinfo\<close> up to
  letter case is answered with the chat id and nothing else, bridge or no bridge.
\<close>

theorem chat_info_needs_identity:
  "(me tg = None \<longrightarrow>
      createMessageHandler tg bridges func m w
        = (case bridges (chat_id (chat m)) of
             None \<Rightarrow>
               (case sendMessageThrows tg of
                  None \<Rightarrow> callTelegram (SendMessage (chat_id (chat m)) privateBotText (Some ''markdown'')) w
                | Some err \<Rightarrow>
                    logLine (ConsoleError ''Could not tell user to get their own TediCross instance:''
                               [ErrArg err, MsgArg m])
                      (callTelegram (SendMessage (chat_id (chat m)) privateBotText (Some ''markdown'')) w))
           | Some b \<Rightarrow> func m b w))
   \<and> (\<forall>b t. me tg = Some b \<and> msg_text m = Some t
             \<and> toLowerCase t = toLowerCase (''@'' @ username b @ '' chatinfo'') \<longrightarrow>
         createMessageHandler tg bridges func m w
           = callTelegram (SendMessage (chat_id (chat m))
                             (''chatID: '' @ numberToString (chat_id (chat m))) None) w)"
  by (auto simp add: createMessageHandler_def isChatInfo_def Let_def split: option.splits)

theorem chat_info_needs_identity_witness:
  "tgCalls (createMessageHandler unresolvedBot Map.empty noRelay
              (textMessage 10 (- 42) ''@tedibot CHATINFO'') emptyWorld)
     = [SendMessage (- 42) privateBotText (Some ''markdown'')]
   \<and> tgCalls (createMessageHandler resolvedBot Map.empty noRelay
              (textMessage 10 (- 42) ''@tedibot CHATINFO'') emptyWorld)
     = [SendMessage (- 42) ''chatID: -42'' None]"
proof -
  have low: "toLowerCase ''@tedibot CHATINFO'' = toLowerCase (''@'' @ ''TediBot'' @ '' chatinfo'')"
    by code_simp
  have num: "numberToString (- 42) = ''-42''"
    by code_simp
  have a: "tgCalls (createMessageHandler unresolvedBot Map.empty noRelay
              (textMessage 10 (- 42) ''@tedibot CHATINFO'') emptyWorld)
     = [SendMessage (- 42) privateBotText (Some ''markdown'')]"
    using chat_info_needs_identity [of unresolvedBot Map.empty noRelay
            "textMessage 10 (- 42) ''@tedibot CHATINFO''" emptyWorld]
    by (simp add: unresolvedBot_def callTelegram_def emptyWorld_def textMessage_def)
  have b: "tgCalls (createMessageHandler resolvedBot Map.empty noRelay
              (textMessage 10 (- 42) ''@tedibot CHATINFO'') emptyWorld)
     = [SendMessage (- 42) ''chatID: -42'' None]"
    using low num chat_info_needs_identity [of resolvedBot Map.empty noRelay
            "textMessage 10 (- 42) ''@tedibot CHATINFO''" emptyWorld]
    by (simp add: resolvedBot_def unresolvedBot_def callTelegram_def emptyWorld_def textMessage_def)
  show ?thesis using a b by simp
qed

section \<open>The text handler\<close>

text \<open>
  C6. The text handler writes a message map entry only after the send to Discord
  has resolved: a changed message map implies a resolved send. When the send is
  rejected the handler logs the two error lines and leaves everything else as the
  send attempt left it; when it resolves with the id \<open>d\<close> the entry for the source
  message id is \<open>d\<close>.
\<close>

theorem text_mapping_only_after_send:
  "(messageMap (textHandler dc conv m b w) \<noteq> messageMap w \<longrightarrow>
      (\<exists>d. send dc (channel (discord b)) (composed (conv m)) = Resolved d))
   \<and> (\<forall>err. ready dc = Resolved () \<and> channels dc (channel (discord b))
            \<and> send dc (channel (discord b)) (composed (conv m)) = Rejected err \<longrightarrow>
          textHandler dc conv m b w
            = textFailed b m err (callDiscord (Send (channel (discord b)) (composed (conv m))) w))
   \<and> (\<forall>d. ready dc = Resolved () \<and> channels dc (channel (discord b))
          \<and> send dc (channel (discord b)) (composed (conv m)) = Resolved d \<longrightarrow>
          textHandler dc conv m b w
            = insertMapping TELEGRAM_TO_DISCORD (message_id m) d
                (callDiscord (Send (channel (discord b)) (composed (conv m))) w))"
  by (auto simp add: textHandler_def textFailed_def logLine_def callDiscord_def Let_def
           split: promise.splits)

theorem text_mapping_only_after_send_witness:
  "messageMap (textHandler refusingDiscord plainConverter (textMessage 10 1 ''hi'') exampleBridge emptyWorld)
      (TELEGRAM_TO_DISCORD, 10) = None
   \<and> length (logged (textHandler refusingDiscord plainConverter (textMessage 10 1 ''hi'') exampleBridge emptyWorld)) = 2
   \<and> dcCalls (textHandler refusingDiscord plainConverter (textMessage 10 1 ''hi'') exampleBridge emptyWorld)
       = [Send ''general'' ''**alice**: hi'']
   \<and> messageMap (textHandler readyDiscord plainConverter (textMessage 10 1 ''hi'') exampleBridge emptyWorld)
      (TELEGRAM_TO_DISCORD, 10) = Some ''555''
   \<and> messageMap (textHandler readyDiscord plainConverter (textMessage 10 1 ''hi'') exampleBridge emptyWorld)
       \<noteq> messageMap emptyWorld"
  using text_mapping_only_after_send [of refusingDiscord plainConverter "textMessage 10 1 ''hi''" exampleBridge emptyWorld]
        text_mapping_only_after_send [of readyDiscord plainConverter "textMessage 10 1 ''hi''" exampleBridge emptyWorld]
  by (simp add: refusingDiscord_def readyDiscord_def plainConverter_def textMessage_def
                exampleBridge_def emptyWorld_def textFailed_def logLine_def callDiscord_def
                insertMapping_def)

section \<open>The edit handler\<close>

text \<open>
  C1. An edited message whose id has no entry in the message map makes no call to
  Discord, neither \<open>fetchMessage\<close> nor \<open>edit\<close>, and, once the Discord client is
  ready, logs exactly one line, the miss. For an id mapped to \<open>d\<close>, with the client
  ready, the channel known and the fetch resolved, the handler fetches \<open>d\<close> and then
  edits it with the text converted from the edited message.
\<close>

theorem edit_follows_message_map:
  "(messageMap w (TELEGRAM_TO_DISCORD, message_id m) = None \<longrightarrow>
      dcCalls (messageEditHandler dc conv m b w) = dcCalls w
      \<and> (ready dc = Resolved () \<longrightarrow>
           messageEditHandler dc conv m b w = editFailed b (notFound (message_id m)) w))
   \<and> (\<forall>d. messageMap w (TELEGRAM_TO_DISCORD, message_id m) = Some d
          \<and> ready dc = Resolved () \<and> channels dc (channel (discord b))
          \<and> fetchMessage dc (channel (discord b)) d = Resolved () \<longrightarrow>
          dcCalls (messageEditHandler dc conv m b w)
            = dcCalls w @ [FetchMessage (channel (discord b)) d,
                           Edit (channel (discord b)) d (composed (conv m))])"
  by (auto simp add: messageEditHandler_def getCorresponding_def editFailed_def logLine_def
                     callDiscord_def Let_def
           split: promise.splits)

theorem edit_follows_message_map_witness:
  "dcCalls (messageEditHandler readyDiscord plainConverter (textMessage 999 1 ''new'') exampleBridge mappedWorld) = []
   \<and> length (logged (messageEditHandler readyDiscord plainConverter (textMessage 999 1 ''new'') exampleBridge mappedWorld)) = 1
   \<and> dcCalls (messageEditHandler readyDiscord plainConverter (textMessage 10 1 ''new'') exampleBridge mappedWorld)
       = [FetchMessage ''general'' ''555'', Edit ''general'' ''555'' ''**alice**: new'']"
  using edit_follows_message_map [of mappedWorld "textMessage 999 1 ''new''" readyDiscord plainConverter exampleBridge]
        edit_follows_message_map [of mappedWorld "textMessage 10 1 ''new''" readyDiscord plainConverter exampleBridge]
  by (simp add: mappedWorld_def insertMapping_def emptyWorld_def textMessage_def readyDiscord_def
                exampleBridge_def plainConverter_def editFailed_def logLine_def)

section \<open>The sticker handler and the file sender\<close>

lemma consumeStream_chunks:
  "consumeStream (map Data chunks @ End # rest) buffers = Some (buffers @ chunks)"
  by (induction chunks arbitrary: buffers) simp_all

lemma sendFile_uploads:
  assumes "ready dc = Resolved ()"
    and "getFile tg (fileId job) = Resolved file"
    and "resolvedExtension job file = Inr extension"
    and "helperGetFileStream tg file = Resolved (map Data chunks @ End # rest)"
    and "channels dc (discordChannel job)"
  shows "sendFile tg dc conv job w
           = (sendWithFile dc (discordChannel job) (textToSend conv job) (concat chunks)
                (fileName job @ extension),
              callDiscord
                (SendFile (discordChannel job) (textToSend conv job) (concat chunks)
                   (fileName job @ extension))
                (callTelegram (GetFileStream file) (callTelegram (GetFile (fileId job)) w)))"
  using assms
  by (simp add: sendFile_def uploadFile_def consumeStream_chunks Let_def)

lemma stickerJob_fields:
  assumes "stickerJob cfg m b = Inr job" and "sticker m = Some s"
  shows "discordChannel job = channel (discord b)" and "relayed job = m"
    and "fileName job = ''sticker.webp''" and "resolveExtension job = None"
    and "jobCaption job = (if sendEmojiWithStickers (telegram cfg) then emoji s else None)"
  using assms by (auto simp add: stickerJob_def split: option.splits)

lemma stickerJob_any_bridge:
  assumes "stickerJob cfg m b = Inr job" and "sticker m = Some s"
  shows "\<exists>job'. stickerJob cfg m b' = Inr job' \<and> jobCaption job' = jobCaption job"
  using assms by (auto simp add: stickerJob_def split: option.splits)

lemma dcCalls_stickerFailed: "dcCalls (stickerFailed b err w) = dcCalls w"
  by (simp add: stickerFailed_def logLine_def)

text \<open>
  C4, as the source has it. Whenever the sticker handler builds a relay job, that
  job is what it hands to the file sender, and the caption of the job is the emoji
  of the sticker when the setting \<open>sendEmojiWithStickers\<close> of the application is on,
  and is omitted, and sent as the empty string, when the setting is off. For a
  sticker that has an emoji the caption of the job is that emoji exactly when the
  setting is on; a sticker without an emoji has its caption omitted either way.
  When the relay reaches the upload, the text sent to Discord ends with the emoji
  if the setting is on and with nothing if it is off. The setting is one for the
  whole application, not one per bridge: the bridge is not read, and the caption is
  the same for every bridge.
\<close>

theorem sticker_caption_gated:
  assumes "stickerJob cfg m b = Inr job" and "sticker m = Some s"
  shows "jobCaption job = (if sendEmojiWithStickers (telegram cfg) then emoji s else None)
       \<and> (\<not> sendEmojiWithStickers (telegram cfg) \<longrightarrow>
            jobCaption job = None \<and> captionText job = [])
       \<and> (\<forall>e. emoji s = Some e \<longrightarrow>
             (jobCaption job = Some e) = sendEmojiWithStickers (telegram cfg)
             \<and> (sendEmojiWithStickers (telegram cfg) \<longrightarrow> captionText job = e))
       \<and> (emoji s = None \<longrightarrow> jobCaption job = None \<and> captionText job = [])
       \<and> (\<forall>b'. \<exists>job'. stickerJob cfg m b' = Inr job' \<and> jobCaption job' = jobCaption job)
       \<and> stickerHandler cfg tg dc conv m b w
           = (case sendFile tg dc conv job w of
                (Rejected err, w1) \<Rightarrow> stickerFailed b err w1
              | (_, w1) \<Rightarrow> w1)
       \<and> (\<forall>file chunks rest.
             ready dc = Resolved () \<and> getFile tg (fileId job) = Resolved file
             \<and> helperGetFileStream tg file = Resolved (map Data chunks @ End # rest)
             \<and> channels dc (channel (discord b)) \<longrightarrow>
             dcCalls (stickerHandler cfg tg dc conv m b w)
               = dcCalls w
                 @ [SendFile (channel (discord b))
                      (''**'' @ sender (conv m) @ ''**:'' @ [CHR 0x0A]
                       @ (if sendEmojiWithStickers (telegram cfg)
                          then (case emoji s of None \<Rightarrow> [] | Some e \<Rightarrow> e) else []))
                      (concat chunks) ''sticker.webp''])"
proof -
  note fields = stickerJob_fields [OF assms]
  have cap: "jobCaption job = (if sendEmojiWithStickers (telegram cfg) then emoji s else None)"
    by (rule fields(5))
  have off: "\<not> sendEmojiWithStickers (telegram cfg) \<longrightarrow>
      jobCaption job = None \<and> captionText job = []"
    using cap by (simp add: captionText_def)
  have iff: "\<forall>e. emoji s = Some e \<longrightarrow>
      (jobCaption job = Some e) = sendEmojiWithStickers (telegram cfg)
      \<and> (sendEmojiWithStickers (telegram cfg) \<longrightarrow> captionText job = e)"
    using cap by (simp add: captionText_def)
  have none: "emoji s = None \<longrightarrow> jobCaption job = None \<and> captionText job = []"
    using cap by (simp add: captionText_def)
  have bridges: "\<forall>b'. \<exists>job'. stickerJob cfg m b' = Inr job' \<and> jobCaption job' = jobCaption job"
    using stickerJob_any_bridge [OF assms] by blast
  have handler: "stickerHandler cfg tg dc conv m b w
           = (case sendFile tg dc conv job w of
                (Rejected err, w1) \<Rightarrow> stickerFailed b err w1
              | (_, w1) \<Rightarrow> w1)"
    using assms(1) by (simp add: stickerHandler_def)
  have body: "textToSend conv job
               = ''**'' @ sender (conv m) @ ''**:'' @ [CHR 0x0A]
                 @ (if sendEmojiWithStickers (telegram cfg)
                    then (case emoji s of None \<Rightarrow> [] | Some e \<Rightarrow> e) else [])"
    using cap fields(2) by (simp add: textToSend_def captionText_def)
  have ext: "resolvedExtension job f = Inr []" for f
    using fields(4) by (simp add: resolvedExtension_def)
  have upload: "dcCalls (stickerHandler cfg tg dc conv m b w)
               = dcCalls w
                 @ [SendFile (channel (discord b))
                      (''**'' @ sender (conv m) @ ''**:'' @ [CHR 0x0A]
                       @ (if sendEmojiWithStickers (telegram cfg)
                          then (case emoji s of None \<Rightarrow> [] | Some e \<Rightarrow> e) else []))
                      (concat chunks) ''sticker.webp'']"
    if env: "ready dc = Resolved ()" "getFile tg (fileId job) = Resolved f"
      "helperGetFileStream tg f = Resolved (map Data chunks @ End # rest)"
      "channels dc (channel (discord b))"
    for f chunks rest
  proof -
    from env(4) fields(1) have ch: "channels dc (discordChannel job)" by simp
    note sent = sendFile_uploads [OF env(1) env(2) ext env(3) ch, of conv w]
    have "dcCalls (stickerHandler cfg tg dc conv m b w)
            = dcCalls w @ [SendFile (discordChannel job) (textToSend conv job) (concat chunks)
                             (fileName job @ [])]"
      unfolding handler sent
      by (cases "sendWithFile dc (discordChannel job) (textToSend conv job) (concat chunks)
                   (fileName job @ [])")
         (simp_all add: dcCalls_stickerFailed callDiscord_def callTelegram_def)
    then show ?thesis
      by (simp add: fields(1) fields(3) body)
  qed
  from cap off iff none bridges handler upload show ?thesis
    by blast
qed

theorem sticker_caption_gated_witness:
  "(\<exists>job. stickerJob (emojiSettings True) stickerMessage exampleBridge = Inr job
          \<and> jobCaption job = Some grinningFace \<and> captionText job = grinningFace)
   \<and> (\<exists>job. stickerJob (emojiSettings False) stickerMessage exampleBridge = Inr job
          \<and> jobCaption job = None \<and> captionText job = [])
   \<and> dcCalls (stickerHandler (emojiSettings True) oggBot readyDiscord plainConverter
                 stickerMessage exampleBridge emptyWorld)
       = [SendFile ''general'' (''**alice**:'' @ [CHR 0x0A] @ grinningFace)
            [0x41, 0x42, 0x43, 0x44] ''sticker.webp'']
   \<and> dcCalls (stickerHandler (emojiSettings False) oggBot readyDiscord plainConverter
                 stickerMessage exampleBridge emptyWorld)
       = [SendFile ''general'' (''**alice**:'' @ [CHR 0x0A])
            [0x41, 0x42, 0x43, 0x44] ''sticker.webp'']"
proof -
  have s: "sticker stickerMessage
             = Some \<lparr> thumb = Some \<lparr> file_id = ''thumb1'' \<rparr>, emoji = Some grinningFace \<rparr>"
    by (simp add: stickerMessage_def)
  obtain j1 where j1: "stickerJob (emojiSettings True) stickerMessage exampleBridge = Inr j1"
    by (simp add: stickerJob_def stickerMessage_def)
  obtain j2 where j2: "stickerJob (emojiSettings False) stickerMessage exampleBridge = Inr j2"
    by (simp add: stickerJob_def stickerMessage_def)
  have on: "sendEmojiWithStickers (telegram (emojiSettings True))"
    and off: "\<not> sendEmojiWithStickers (telegram (emojiSettings False))"
    by (simp_all add: emojiSettings_def)
  have env: "ready readyDiscord = Resolved ()
      \<and> getFile oggBot i = Resolved \<lparr> file_path = Some ''foo/bar.ogg'' \<rparr>
      \<and> helperGetFileStream oggBot \<lparr> file_path = Some ''foo/bar.ogg'' \<rparr>
          = Resolved (map Data [[0x41, 0x42], [0x43, 0x44]] @ End # [])
      \<and> channels readyDiscord (channel (discord exampleBridge))" for i
    by (simp add: readyDiscord_def oggBot_def exampleBridge_def)
  note t1 = sticker_caption_gated [OF j1 s, of oggBot readyDiscord plainConverter emptyWorld]
  note t2 = sticker_caption_gated [OF j2 s, of oggBot readyDiscord plainConverter emptyWorld]
  from t1 on have a: "jobCaption j1 = Some grinningFace \<and> captionText j1 = grinningFace"
    by simp
  from t2 off have b: "jobCaption j2 = None \<and> captionText j2 = []"
    by simp
  from t1 env [of "fileId j1"]
  have "dcCalls (stickerHandler (emojiSettings True) oggBot readyDiscord plainConverter
                 stickerMessage exampleBridge emptyWorld)
       = dcCalls emptyWorld
         @ [SendFile (channel (discord exampleBridge))
              (''**'' @ sender (plainConverter stickerMessage) @ ''**:'' @ [CHR 0x0A]
               @ (if sendEmojiWithStickers (telegram (emojiSettings True))
                  then (case emoji \<lparr> thumb = Some \<lparr> file_id = ''thumb1'' \<rparr>,
                                     emoji = Some grinningFace \<rparr>
                        of None \<Rightarrow> [] | Some e \<Rightarrow> e) else []))
              (concat [[0x41, 0x42], [0x43, 0x44]]) ''sticker.webp'']"
    by blast
  then have c: "dcCalls (stickerHandler (emojiSettings True) oggBot readyDiscord plainConverter
                 stickerMessage exampleBridge emptyWorld)
       = [SendFile ''general'' (''**alice**:'' @ [CHR 0x0A] @ grinningFace)
            [0x41, 0x42, 0x43, 0x44] ''sticker.webp'']"
    using on by (simp add: emptyWorld_def exampleBridge_def plainConverter_def)
  from t2 env [of "fileId j2"]
  have "dcCalls (stickerHandler (emojiSettings False) oggBot readyDiscord plainConverter
                 stickerMessage exampleBridge emptyWorld)
       = dcCalls emptyWorld
         @ [SendFile (channel (discord exampleBridge))
              (''**'' @ sender (plainConverter stickerMessage) @ ''**:'' @ [CHR 0x0A]
               @ (if sendEmojiWithStickers (telegram (emojiSettings False))
                  then (case emoji \<lparr> thumb = Some \<lparr> file_id = ''thumb1'' \<rparr>,
                                     emoji = Some grinningFace \<rparr>
                        of None \<Rightarrow> [] | Some e \<Rightarrow> e) else []))
              (concat [[0x41, 0x42], [0x43, 0x44]]) ''sticker.webp'']"
    by blast
  then have d: "dcCalls (stickerHandler (emojiSettings False) oggBot readyDiscord plainConverter
                 stickerMessage exampleBridge emptyWorld)
       = [SendFile ''general'' (''**alice**:'' @ [CHR 0x0A])
            [0x41, 0x42, 0x43, 0x44] ''sticker.webp'']"
    using off by (simp add: emptyWorld_def exampleBridge_def plainConverter_def)
  from a b c d j1 j2 show ?thesis by blast
qed

text \<open>
  The caption is not gated by anything of the bridge. For one bridge and one
  sticker the caption is the emoji under one setting of the application and is
  omitted under the other, so no flag that is a function of the bridge decides
  it. And for a sticker without an emoji, with the setting off, the caption of the
  job and the emoji of the sticker are both \<open>undefined\<close>: they are equal though no
  flag is set.
\<close>

theorem sticker_flag_not_per_bridge_counterexample:
  "(\<exists>job. stickerJob (emojiSettings True) stickerMessage exampleBridge = Inr job
          \<and> jobCaption job = Some grinningFace)
   \<and> (\<exists>job. stickerJob (emojiSettings False) stickerMessage exampleBridge = Inr job
          \<and> jobCaption job = None)
   \<and> \<not> (\<exists>perBridgeFlag :: bridge \<Rightarrow> bool.
           \<forall>cfg job. stickerJob cfg stickerMessage exampleBridge = Inr job \<longrightarrow>
             (jobCaption job = Some grinningFace) = perBridgeFlag exampleBridge)
   \<and> (\<exists>job. stickerJob (emojiSettings False) plainStickerMessage exampleBridge = Inr job
          \<and> jobCaption job = None \<and> emoji plainSticker = None)"
proof -
  have a: "\<exists>job. stickerJob (emojiSettings True) stickerMessage exampleBridge = Inr job
          \<and> jobCaption job = Some grinningFace"
    by (simp add: stickerJob_def stickerMessage_def emojiSettings_def)
  have b: "\<exists>job. stickerJob (emojiSettings False) stickerMessage exampleBridge = Inr job
          \<and> jobCaption job = None"
    by (simp add: stickerJob_def stickerMessage_def emojiSettings_def)
  have c: "\<not> (\<exists>perBridgeFlag :: bridge \<Rightarrow> bool.
           \<forall>cfg job. stickerJob cfg stickerMessage exampleBridge = Inr job \<longrightarrow>
             (jobCaption job = Some grinningFace) = perBridgeFlag exampleBridge)"
  proof
    assume "\<exists>perBridgeFlag :: bridge \<Rightarrow> bool.
           \<forall>cfg job. stickerJob cfg stickerMessage exampleBridge = Inr job \<longrightarrow>
             (jobCaption job = Some grinningFace) = perBridgeFlag exampleBridge"
    then obtain flag :: "bridge \<Rightarrow> bool" where
      flag: "\<And>cfg job. stickerJob cfg stickerMessage exampleBridge = Inr job \<Longrightarrow>
             (jobCaption job = Some grinningFace) = flag exampleBridge"
      by blast
    from a obtain j1 where j1: "stickerJob (emojiSettings True) stickerMessage exampleBridge = Inr j1"
      "jobCaption j1 = Some grinningFace" by blast
    from b obtain j2 where j2: "stickerJob (emojiSettings False) stickerMessage exampleBridge = Inr j2"
      "jobCaption j2 = None" by blast
    from flag [OF j1(1)] j1(2) have "flag exampleBridge" by simp
    moreover from flag [OF j2(1)] j2(2) have "\<not> flag exampleBridge" by simp
    ultimately show False by simp
  qed
  have d: "\<exists>job. stickerJob (emojiSettings False) plainStickerMessage exampleBridge = Inr job
          \<and> jobCaption job = None \<and> emoji plainSticker = None"
    by (simp add: stickerJob_def plainStickerMessage_def plainSticker_def emojiSettings_def)
  from a b c d show ?thesis by blast
qed

lemma split_example: "split CHR ''.'' ''foo/bar.ogg'' = [''foo/bar'', ''ogg'']"
  by (simp add: split_def)

text \<open>
  C8. When a relay reaches the upload, the attachment passed to Discord is the
  concatenation, in order of delivery, of the chunks that the download stream
  emitted before its \<open>end\<close> event.
\<close>

theorem upload_is_concatenation:
  assumes "ready dc = Resolved ()"
    and "getFile tg (fileId job) = Resolved file"
    and "resolvedExtension job file = Inr extension"
    and "helperGetFileStream tg file = Resolved (map Data chunks @ End # rest)"
    and "channels dc (discordChannel job)"
  shows "dcCalls (snd (sendFile tg dc conv job w))
           = dcCalls w @ [SendFile (discordChannel job) (textToSend conv job) (concat chunks)
                            (fileName job @ extension)]"
  by (simp add: sendFile_uploads [OF assms] callDiscord_def callTelegram_def)

theorem upload_is_concatenation_witness:
  "dcCalls (snd (sendFile oggBot readyDiscord plainConverter (voiceJob False) emptyWorld))
     = [SendFile ''general'' (''**alice**:'' @ [CHR 0x0A]) [0x41, 0x42, 0x43, 0x44] ''voice'']"
proof -
  have h1: "ready readyDiscord = Resolved ()" by (simp add: readyDiscord_def)
  have h2: "getFile oggBot (fileId (voiceJob False)) = Resolved \<lparr> file_path = Some ''foo/bar.ogg'' \<rparr>"
    by (simp add: oggBot_def)
  have h3: "resolvedExtension (voiceJob False) \<lparr> file_path = Some ''foo/bar.ogg'' \<rparr> = Inr []"
    by (simp add: resolvedExtension_def voiceJob_def)
  have h4: "helperGetFileStream oggBot \<lparr> file_path = Some ''foo/bar.ogg'' \<rparr>
              = Resolved (map Data [[0x41, 0x42], [0x43, 0x44]] @ End # [])"
    by (simp add: oggBot_def)
  have h5: "channels readyDiscord (discordChannel (voiceJob False))"
    by (simp add: readyDiscord_def voiceJob_def)
  show ?thesis
    using upload_is_concatenation [OF h1 h2 h3 h4 h5,
            where conv = plainConverter and w = emptyWorld]
    by (simp add: emptyWorld_def voiceJob_def textToSend_def captionText_def plainConverter_def)
qed

text \<open>
  C9. For the file name \<open>voice\<close> and the source path \<open>foo/bar.ogg\<close>, the name of
  the uploaded file is \<open>voice.ogg\<close> when \<open>resolveExtension\<close> is true and \<open>voice\<close>
  when it is false or left out.
\<close>

theorem extension_resolution:
  assumes "fileName job = ''voice''"
    and "file_path file = Some ''foo/bar.ogg''"
    and "ready dc = Resolved ()"
    and "getFile tg (fileId job) = Resolved file"
    and "helperGetFileStream tg file = Resolved (map Data chunks @ End # rest)"
    and "channels dc (discordChannel job)"
  shows "dcCalls (snd (sendFile tg dc conv job w))
           = dcCalls w @ [SendFile (discordChannel job) (textToSend conv job) (concat chunks)
                            (if resolveExtension job = Some True then ''voice.ogg'' else ''voice'')]"
proof -
  have ext: "resolvedExtension job file
               = Inr (if resolveExtension job = Some True then ''.ogg'' else [])"
    using assms(2) by (simp add: resolvedExtension_def split_example pop_def)
  show ?thesis
    using assms(1)
    by (simp add: sendFile_uploads [OF assms(3) assms(4) ext assms(5) assms(6)]
                  callDiscord_def callTelegram_def)
qed

theorem extension_resolution_witness:
  "dcCalls (snd (sendFile oggBot readyDiscord plainConverter (voiceJob True) emptyWorld))
     = [SendFile ''general'' (''**alice**:'' @ [CHR 0x0A]) [0x41, 0x42, 0x43, 0x44] ''voice.ogg'']
   \<and> dcCalls (snd (sendFile oggBot readyDiscord plainConverter (voiceJob False) emptyWorld))
     = [SendFile ''general'' (''**alice**:'' @ [CHR 0x0A]) [0x41, 0x42, 0x43, 0x44] ''voice'']"
proof -
  have h1: "ready readyDiscord = Resolved ()" by (simp add: readyDiscord_def)
  have h2: "\<And>r. getFile oggBot (fileId (voiceJob r)) = Resolved \<lparr> file_path = Some ''foo/bar.ogg'' \<rparr>"
    by (simp add: oggBot_def)
  have h4: "helperGetFileStream oggBot \<lparr> file_path = Some ''foo/bar.ogg'' \<rparr>
              = Resolved (map Data [[0x41, 0x42], [0x43, 0x44]] @ End # [])"
    by (simp add: oggBot_def)
  have h5: "\<And>r. channels readyDiscord (discordChannel (voiceJob r))"
    by (simp add: readyDiscord_def voiceJob_def)
  have n: "\<And>r. fileName (voiceJob r) = ''voice''" by (simp add: voiceJob_def)
  have p: "file_path \<lparr> file_path = Some ''foo/bar.ogg'' \<rparr> = Some ''foo/bar.ogg''" by simp
  show ?thesis
    using extension_resolution [OF n [of True] p h1 h2 [of True] h4 h5 [of True],
            where conv = plainConverter and w = emptyWorld]
          extension_resolution [OF n [of False] p h1 h2 [of False] h4 h5 [of False],
            where conv = plainConverter and w = emptyWorld]
    by (simp add: emptyWorld_def voiceJob_def textToSend_def captionText_def plainConverter_def)
qed

end
